theory Spec2Isabelle
  imports Complex_Main "HOL-Library.Log_Nat" "HOL-Library.AList"
begin

section \<open>Python values used by the views of \<^verbatim>\<open>app.py\<close>\<close>

subsection \<open>Text\<close>

text \<open>
  The tables are decoded with \<^verbatim>\<open>encoding='latin-1'\<close>, so a text of a row is a
  sequence of code points below 256: one \<^typ>\<open>char\<close> per code point.

  \<^verbatim>\<open>str.strip()\<close> removes the characters for which \<^verbatim>\<open>str.isspace()\<close> holds; below
  256 these are 9 to 13, 28 to 32, 133 and 160.

  \<^verbatim>\<open>str.upper()\<close> maps a..z and the accented letters 224..254 (247, the division
  sign, apart) 32 code points down, and the sharp s (223) to the two letters SS. The
  micro sign (181) and the y with diaeresis (255) have upper-case forms above 255;
  no upper-cased text holds 181 or 255 otherwise, so these two code points stand for
  their upper-case forms here.
\<close>

definition py_isspace :: "char \<Rightarrow> bool" where
  "py_isspace c = (of_char c \<in> {9, 10, 11, 12, 13, 28, 29, 30, 31, 32, 133, 160 :: nat})"

definition py_strip :: "string \<Rightarrow> string" where
  "py_strip s = rev (dropWhile py_isspace (rev (dropWhile py_isspace s)))"

definition upper_char :: "char \<Rightarrow> string" where
  "upper_char c = (let n = of_char c :: nat in
     if (97 \<le> n \<and> n \<le> 122) \<or> (224 \<le> n \<and> n \<le> 254 \<and> n \<noteq> 247) then [char_of (n - 32)]
     else if n = 223 then ''SS''
     else [c])"

definition py_upper :: "string \<Rightarrow> string" where
  "py_upper s = concat (map upper_char s)"

text \<open>\<^verbatim>\<open>pat in s\<close>: the text \<open>pat\<close> occurs in \<open>s\<close> as a contiguous piece.\<close>

fun py_in :: "string \<Rightarrow> string \<Rightarrow> bool" where
  "py_in pat [] = (pat = [])"
| "py_in pat (c # cs) = (take (length pat) (c # cs) = pat \<or> py_in pat cs)"

subsection \<open>Floats\<close>

text \<open>
  A Python float is an IEEE 754 double. A finite double is a rational number with a
  53-bit significand, and \<^verbatim>\<open>+\<close> and \<^verbatim>\<open>-\<close> return the exact result rounded to the nearest
  double, ties to the even significand. The exponent is not bounded here: overflow to
  infinity (beyond \<open>2 ^ 1024\<close>) and the values \<^verbatim>\<open>inf\<close> and \<^verbatim>\<open>nan\<close> are outside the model, and
  so is the sign of zero.

  \<open>expo x\<close> is the exponent \<open>e\<close> with \<open>2 ^ e \<le> \<bar>x\<bar> < 2 ^ (e + 1)\<close>.
\<close>

definition expo :: "rat \<Rightarrow> int" where
  "expo x = (let (p, q) = quotient_of \<bar>x\<bar>; d = bitlen p - bitlen q
             in if \<bar>x\<bar> < 2 powi d then d - 1 else d)"

definition round_half_even :: "rat \<Rightarrow> int" where
  "round_half_even y = (let f = \<lfloor>y\<rfloor>; r = y - of_int f
     in if r < 1 / 2 then f else if 1 / 2 < r then f + 1 else if even f then f else f + 1)"

definition rnd :: "rat \<Rightarrow> rat" where
  "rnd x = (if x = 0 then 0
            else let k = expo x - 52 in of_int (round_half_even (x / 2 powi k)) * 2 powi k)"

definition fadd :: "rat \<Rightarrow> rat \<Rightarrow> rat" where
  "fadd x y = rnd (x + y)"

definition fsub :: "rat \<Rightarrow> rat \<Rightarrow> rat" where
  "fsub x y = rnd (x - y)"

text \<open>
  \<^verbatim>\<open>f"{x:.2f}"\<close>: the exact value of the double rounded to two decimals (ties to even),
  with the sign of \<open>x\<close> kept when the digits round to zero.
\<close>

definition digit_char :: "nat \<Rightarrow> char" where
  "digit_char d = ''0123456789'' ! d"

fun digits10 :: "nat \<Rightarrow> string" where
  "digits10 n = (if n < 10 then [digit_char n]
                 else digits10 (n div 10) @ [digit_char (n mod 10)])"

declare digits10.simps [simp del]

definition fmt2 :: "rat \<Rightarrow> string" where
  "fmt2 x = (let n = nat (round_half_even (\<bar>x\<bar> * 100))
             in (if x < 0 then ''-'' else '''') @ digits10 (n div 100) @ ''.'' @
                [digit_char (n mod 100 div 10), digit_char (n mod 10)])"

subsection \<open>Rows and their fields\<close>

text \<open>
  A row of a table is a dictionary from field names to values; a value is null, a text
  or a number (an integer or a double, given by its exact value).
\<close>

datatype pyval = PyNone | PyStr string | PyNum rat

type_synonym row = "string \<rightharpoonup> pyval"

datatype error = AttributeError | ValueError

definition bind_err :: "error + 'a \<Rightarrow> ('a \<Rightarrow> error + 'b) \<Rightarrow> error + 'b" where
  "bind_err m f = (case m of Inl e \<Rightarrow> Inl e | Inr x \<Rightarrow> f x)"

text \<open>
  \<^verbatim>\<open>linha.get(key, '').strip()\<close>: an absent field reads as the empty text; a null or a
  number has no method \<^verbatim>\<open>strip\<close>.
\<close>

definition get_strip :: "row \<Rightarrow> string \<Rightarrow> error + string" where
  "get_strip linha key =
     (case linha key of
        None \<Rightarrow> Inr (py_strip '''')
      | Some (PyStr s) \<Rightarrow> Inr (py_strip s)
      | Some _ \<Rightarrow> Inl AttributeError)"

text \<open>
  \<^verbatim>\<open>float(linha.get(key, 0) or 0)\<close>: an absent field, a null, a zero and the empty text
  are falsy and give \<^verbatim>\<open>float(0)\<close>; a number is converted to the nearest double; any
  other text goes to \<^verbatim>\<open>float\<close>, which raises ValueError on a text that is not a number.
  What the builtin \<^verbatim>\<open>float\<close> returns on a non-empty text is the parameter \<open>sf\<close>
  (\<open>None\<close> where it raises).
\<close>

type_synonym str_float = "string \<Rightarrow> rat option"

definition get_float :: "str_float \<Rightarrow> row \<Rightarrow> string \<Rightarrow> error + rat" where
  "get_float sf linha key =
     (case linha key of
        None \<Rightarrow> Inr (rnd 0)
      | Some PyNone \<Rightarrow> Inr (rnd 0)
      | Some (PyNum x) \<Rightarrow> Inr (rnd x)
      | Some (PyStr s) \<Rightarrow>
          (if s = [] then Inr (rnd 0)
           else (case sf s of None \<Rightarrow> Inl ValueError | Some v \<Rightarrow> Inr v)))"

text \<open>
  An instance of \<open>sf\<close> for concrete runs: \<^verbatim>\<open>float\<close> on the texts that are a non-empty run
  of the digits 0 to 9 (the integer they write, as a double) between leading and trailing
  white space. The builtin strips less than \<^verbatim>\<open>str.strip()\<close> does: the code points 9 to 13,
  32, 133 and 160, not 28 to 31. The instance stands for the builtin on these texts and on
  the texts the builtin rejects.
\<close>

definition float_isspace :: "char \<Rightarrow> bool" where
  "float_isspace c = (of_char c \<in> {9, 10, 11, 12, 13, 32, 133, 160 :: nat})"

definition float_of_digits :: str_float where
  "float_of_digits s =
     (let t = rev (dropWhile float_isspace (rev (dropWhile float_isspace s))) in
      if t \<noteq> [] \<and> list_all (\<lambda>c. 48 \<le> (of_char c :: nat) \<and> (of_char c :: nat) \<le> 57) t
      then Some (rnd (of_nat (foldl (\<lambda>n c. 10 * n + (of_char c - 48)) 0 t)))
      else None)"

subsection \<open>Reading a table\<close>

text \<open>
  \<^verbatim>\<open>ler_dbf\<close> opens a table of the folder of the current year and returns its rows; on
  any exception of the reader it returns the empty list. The reader is the source
  \<open>src\<close>: the rows of a file, or \<open>None\<close> where opening or reading it raises.
\<close>

type_synonym source = "string \<Rightarrow> row list option"

definition ler_dbf :: "source \<Rightarrow> string \<Rightarrow> row list" where
  "ler_dbf src nome_ficheiro =
     (case src nome_ficheiro of None \<Rightarrow> [] | Some tabela \<Rightarrow> tabela)"

section \<open>The overview page: \<^verbatim>\<open>index\<close>\<close>

text \<open>
  The four variables of the loop over \<^verbatim>\<open>Balanco.dbf\<close>. Record fields carry the prefix of
  their view (\<open>ix_\<close>, \<open>db_\<close>, \<open>bl_\<close>), since the three views name their variables alike.
\<close>

record ix_vars =
  ix_total_receitas :: rat
  ix_total_despesas :: rat
  ix_saldo_anterior :: rat
  ix_saldo_final :: rat

definition ix_init :: ix_vars where
  "ix_init = \<lparr>ix_total_receitas = 0, ix_total_despesas = 0, ix_saldo_anterior = 0, ix_saldo_final = 0\<rparr>"

text \<open>The body of the loop: the three fields are read, then the chain of tests.\<close>

definition index_body :: "str_float \<Rightarrow> ix_vars \<Rightarrow> row \<Rightarrow> error + ix_vars" where
  "index_body sf v linha =
     bind_err (get_strip linha ''conta'') (\<lambda>c.
     bind_err (get_strip linha ''tipo'') (\<lambda>t.
     bind_err (get_float sf linha ''valor'') (\<lambda>valor.
       let conta = py_upper c; tipo = py_upper t in
       Inr (if py_in ''TSA'' conta then v\<lparr>ix_saldo_anterior := valor\<rparr>
            else if tipo = ''SUBTOTAL'' \<and> py_in ''SALDO'' conta \<and> py_in ''ANTERIOR'' conta
              then v\<lparr>ix_saldo_anterior := valor\<rparr>
            else if py_in ''TOTAL'' conta \<and> py_in ''SALDO'' conta \<and> py_in ''ANTERIOR'' conta
              then v\<lparr>ix_saldo_anterior := valor\<rparr>
            else if tipo = ''SUBTOTAL'' \<and> py_in ''RECEITAS'' conta
              then v\<lparr>ix_total_receitas := valor\<rparr>
            else if py_in ''TOTAL'' conta \<and> py_in ''RECEITAS'' conta
              then v\<lparr>ix_total_receitas := valor\<rparr>
            else if tipo = ''SUBTOTAL'' \<and> py_in ''DESPESAS'' conta
              then v\<lparr>ix_total_despesas := valor\<rparr>
            else if py_in ''TOTAL'' conta \<and> py_in ''DESPESAS'' conta
              then v\<lparr>ix_total_despesas := valor\<rparr>
            else if tipo = ''SALDO'' \<and> py_in ''FINAL'' conta
              then v\<lparr>ix_saldo_final := valor\<rparr>
            else if tipo = ''TOTAL'' \<and> conta = ''TOTAL''
              then (if ix_saldo_final v = 0 then v\<lparr>ix_saldo_final := valor\<rparr> else v)
            else v))))"

fun index_loop :: "str_float \<Rightarrow> ix_vars \<Rightarrow> row list \<Rightarrow> error + ix_vars" where
  "index_loop sf v [] = Inr v"
| "index_loop sf v (linha # rest) = bind_err (index_body sf v linha) (\<lambda>v'. index_loop sf v' rest)"

text \<open>The dictionary \<^verbatim>\<open>resumo\<close> handed to the template.\<close>

record resumo =
  resumo_total_receitas :: string
  resumo_total_despesas :: string
  resumo_saldo_anterior :: string
  resumo_saldo_final :: string

text \<open>
  The \<^verbatim>\<open>try\<close> block of \<^verbatim>\<open>index\<close> on the rows read: the loop, the fallback for the final
  balance and the formatting; any exception gives the summary of zeros.
\<close>

definition index_resumo :: "str_float \<Rightarrow> row list \<Rightarrow> resumo" where
  "index_resumo sf balanco_dbf =
     (case index_loop sf ix_init balanco_dbf of
        Inl e \<Rightarrow> \<lparr>resumo_total_receitas = ''0.00'', resumo_total_despesas = ''0.00'',
                  resumo_saldo_anterior = ''0.00'', resumo_saldo_final = ''0.00''\<rparr>
      | Inr v \<Rightarrow>
          (let saldo_final =
                 (if ix_saldo_final v = 0
                  then fsub (fadd (ix_saldo_anterior v) (ix_total_receitas v)) (ix_total_despesas v)
                  else ix_saldo_final v)
           in \<lparr>resumo_total_receitas = fmt2 (ix_total_receitas v),
                resumo_total_despesas = fmt2 (ix_total_despesas v),
                resumo_saldo_anterior = fmt2 (ix_saldo_anterior v),
                resumo_saldo_final = fmt2 saldo_final\<rparr>))"

definition index :: "str_float \<Rightarrow> source \<Rightarrow> resumo" where
  "index sf src = index_resumo sf (ler_dbf src ''Balanco.dbf'')"

section \<open>The balance sheet: \<^verbatim>\<open>balanco\<close>\<close>

record bl_vars =
  bl_despesas_lista :: "(string \<times> rat) list"
  bl_total_despesas :: rat
  bl_total_receitas :: rat
  bl_quotas_normais :: rat
  bl_quotas_extras :: rat
  bl_juros :: rat
  bl_saldo_anterior_total :: rat
  bl_deposito_ordem :: rat
  bl_numerario_caixa :: rat
  bl_saldo_final :: rat

definition bl_init :: bl_vars where
  "bl_init = \<lparr>bl_despesas_lista = [], bl_total_despesas = 0, bl_total_receitas = 0,
               bl_quotas_normais = 0, bl_quotas_extras = 0, bl_juros = 0,
               bl_saldo_anterior_total = 0, bl_deposito_ordem = 0, bl_numerario_caixa = 0,
               bl_saldo_final = 0\<rparr>"

text \<open>
  The two spellings of the deposit and cash labels; the accented capitals are the code
  points 211 (O acute) and 193 (A acute). An entry of \<^verbatim>\<open>despesas_lista\<close> is the pair of
  its \<^verbatim>\<open>nome\<close> (the label stripped, in its own case) and its \<^verbatim>\<open>valor\<close>.
\<close>

definition balanco_body :: "str_float \<Rightarrow> bl_vars \<Rightarrow> row \<Rightarrow> error + bl_vars" where
  "balanco_body sf v linha =
     bind_err (get_strip linha ''conta'') (\<lambda>c.
     bind_err (get_strip linha ''tipo'') (\<lambda>t.
     bind_err (get_float sf linha ''valor'') (\<lambda>valor.
       let conta = py_upper c; tipo = py_upper t in
       if tipo = ''DESPESA''
         then bind_err (get_strip linha ''conta'') (\<lambda>nome.
                Inr (v\<lparr>bl_despesas_lista := bl_despesas_lista v @ [(nome, valor)]\<rparr>))
       else Inr (
         if py_in ''TSA'' conta then v\<lparr>bl_saldo_anterior_total := valor\<rparr>
         else if tipo = ''SUBTOTAL'' \<and> py_in ''SALDO'' conta \<and> py_in ''ANTERIOR'' conta
           then v\<lparr>bl_saldo_anterior_total := valor\<rparr>
         else if py_in (''DEP'' @ [char_of (211 :: nat)] @ ''SITO ORDEM'') conta
                 \<or> py_in ''DEPOSITO ORDEM'' conta
           then v\<lparr>bl_deposito_ordem := valor\<rparr>
         else if py_in (''NUMER'' @ [char_of (193 :: nat)] @ ''RIO CAIXA'') conta
                 \<or> py_in ''NUMERARIO CAIXA'' conta
           then v\<lparr>bl_numerario_caixa := valor\<rparr>
         else if tipo = ''SUBTOTAL'' \<and> py_in ''DESPESAS'' conta
           then v\<lparr>bl_total_despesas := valor\<rparr>
         else if py_in ''QUOTAS NORMAIS'' conta then v\<lparr>bl_quotas_normais := valor\<rparr>
         else if py_in ''QUOTAS EXTRAS'' conta then v\<lparr>bl_quotas_extras := valor\<rparr>
         else if py_in ''JUROS'' conta \<and> tipo = ''RECEITA'' then v\<lparr>bl_juros := valor\<rparr>
         else if tipo = ''SUBTOTAL'' \<and> py_in ''RECEITAS'' conta
           then v\<lparr>bl_total_receitas := valor\<rparr>
         else if tipo = ''SALDO'' \<and> py_in ''FINAL'' conta then v\<lparr>bl_saldo_final := valor\<rparr>
         else v))))"

fun balanco_loop :: "str_float \<Rightarrow> bl_vars \<Rightarrow> row list \<Rightarrow> error + bl_vars" where
  "balanco_loop sf v [] = Inr v"
| "balanco_loop sf v (linha # rest) =
     bind_err (balanco_body sf v linha) (\<lambda>v'. balanco_loop sf v' rest)"

text \<open>The two dictionaries and the keyword arguments handed to the template.\<close>

record saldo_anterior_dict =
  deposito_poupanca :: rat
  deposito_ordem :: rat
  numerario_caixa :: rat
  saldo_anterior_total :: rat

record receitas_dict =
  quotas_normais :: rat
  quotas_extras :: rat
  juros :: rat
  receitas_total :: rat

record balanco_out =
  despesas :: "(string \<times> rat) list"
  total_despesas :: rat
  saldo_anterior :: saldo_anterior_dict
  receitas :: receitas_dict
  saldo_final :: rat
  total_debitos :: rat
  total_creditos :: rat

text \<open>The final computations of \<^verbatim>\<open>balanco\<close> on the variables the loop leaves.\<close>

definition balanco_final :: "bl_vars \<Rightarrow> balanco_out" where
  "balanco_final v =
     (let saldo_anterior = \<lparr>deposito_poupanca = 0, deposito_ordem = bl_deposito_ordem v,
                             numerario_caixa = bl_numerario_caixa v,
                             saldo_anterior_total = bl_saldo_anterior_total v\<rparr>;
          receitas_detalhes = \<lparr>quotas_normais = bl_quotas_normais v,
                                quotas_extras = bl_quotas_extras v, juros = bl_juros v,
                                receitas_total = bl_total_receitas v\<rparr>;
          total_creditos = fadd (saldo_anterior_total saldo_anterior) (receitas_total receitas_detalhes);
          saldo_final = (if bl_saldo_final v = 0 then fsub total_creditos (bl_total_despesas v)
                         else bl_saldo_final v);
          total_debitos = fadd (bl_total_despesas v) saldo_final
      in \<lparr>despesas = bl_despesas_lista v, total_despesas = bl_total_despesas v,
           saldo_anterior = saldo_anterior, receitas = receitas_detalhes,
           saldo_final = saldo_final, total_debitos = total_debitos,
           total_creditos = total_creditos\<rparr>)"

text \<open>\<^verbatim>\<open>balanco\<close> has no \<^verbatim>\<open>try\<close>: an exception of the loop reaches the caller.\<close>

definition balanco_rows :: "str_float \<Rightarrow> row list \<Rightarrow> error + balanco_out" where
  "balanco_rows sf balanco_dbf =
     bind_err (balanco_loop sf bl_init balanco_dbf) (\<lambda>v. Inr (balanco_final v))"

definition balanco :: "str_float \<Rightarrow> source \<Rightarrow> error + balanco_out" where
  "balanco sf src = balanco_rows sf (ler_dbf src ''Balanco.dbf'')"

section \<open>The dashboard\<close>

definition meses :: "string list" where
  "meses = [''jan'', ''fev'', ''mar'', ''abr'', ''mai'', ''jun'',
            ''jul'', ''ago'', ''set'', ''out'', ''nov'', ''dez'']"

text \<open>
  The list comprehension \<^verbatim>\<open>[float(linha.get(mes, 0) or 0) for mes in meses]\<close>: the months
  are read in order and the first exception ends it.
\<close>

fun floats_of :: "str_float \<Rightarrow> row \<Rightarrow> string list \<Rightarrow> error + rat list" where
  "floats_of sf linha [] = Inr []"
| "floats_of sf linha (mes # ms) =
     bind_err (get_float sf linha mes) (\<lambda>x.
     bind_err (floats_of sf linha ms) (\<lambda>xs. Inr (x # xs)))"

text \<open>
  The loop that fills \<^verbatim>\<open>rec_n_fracoes\<close>, and word for word \<^verbatim>\<open>rec_e_fracoes\<close>. A Python
  dictionary keeps its keys in the order of their first insertion and an assignment to a
  key it holds replaces the value in place: an association list under \<open>AList.update\<close>.
\<close>

fun fracoes_loop ::
  "str_float \<Rightarrow> (string \<times> rat list) list \<Rightarrow> row list \<Rightarrow> error + (string \<times> rat list) list" where
  "fracoes_loop sf d [] = Inr d"
| "fracoes_loop sf d (linha # rest) =
     bind_err (get_strip linha ''fraccao'') (\<lambda>fracao.
       if fracao \<noteq> [] \<and> py_upper fracao \<noteq> ''TOTAIS''
       then bind_err (floats_of sf linha meses) (\<lambda>xs.
              fracoes_loop sf (AList.update fracao xs d) rest)
       else fracoes_loop sf d rest)"

text \<open>
  The loop over \<^verbatim>\<open>Despesas.dbf\<close>, which stops at the first row labelled TOTAIS;
  \<^verbatim>\<open>despesas_mensais\<close> stays the empty list when there is none.
\<close>

fun despesas_loop :: "str_float \<Rightarrow> row list \<Rightarrow> error + rat list" where
  "despesas_loop sf [] = Inr []"
| "despesas_loop sf (linha # rest) =
     bind_err (get_strip linha ''despesas'') (\<lambda>d.
       if py_upper d = ''TOTAIS'' then floats_of sf linha meses
       else despesas_loop sf rest)"

record db_vars =
  db_total_receitas :: rat
  db_total_despesas :: rat
  db_saldo_anterior :: rat
  db_saldo_final :: rat

definition db_init :: db_vars where
  "db_init = \<lparr>db_total_receitas = 0, db_total_despesas = 0, db_saldo_anterior = 0, db_saldo_final = 0\<rparr>"

definition dashboard_body :: "str_float \<Rightarrow> db_vars \<Rightarrow> row \<Rightarrow> error + db_vars" where
  "dashboard_body sf v linha =
     bind_err (get_strip linha ''conta'') (\<lambda>c.
     bind_err (get_strip linha ''tipo'') (\<lambda>t.
     bind_err (get_float sf linha ''valor'') (\<lambda>valor.
       let conta = py_upper c; tipo = py_upper t in
       Inr (if py_in ''TSA'' conta then v\<lparr>db_saldo_anterior := valor\<rparr>
            else if tipo = ''SUBTOTAL'' \<and> py_in ''SALDO'' conta \<and> py_in ''ANTERIOR'' conta
              then v\<lparr>db_saldo_anterior := valor\<rparr>
            else if tipo = ''SUBTOTAL'' \<and> py_in ''RECEITAS'' conta
              then v\<lparr>db_total_receitas := valor\<rparr>
            else if tipo = ''SUBTOTAL'' \<and> py_in ''DESPESAS'' conta
              then v\<lparr>db_total_despesas := valor\<rparr>
            else if tipo = ''SALDO'' \<and> py_in ''FINAL'' conta
              then v\<lparr>db_saldo_final := valor\<rparr>
            else if tipo = ''TOTAL'' \<and> conta = ''TOTAL''
              then (if db_saldo_final v = 0 then v\<lparr>db_saldo_final := valor\<rparr> else v)
            else v))))"

fun dashboard_loop :: "str_float \<Rightarrow> db_vars \<Rightarrow> row list \<Rightarrow> error + db_vars" where
  "dashboard_loop sf v [] = Inr v"
| "dashboard_loop sf v (linha # rest) =
     bind_err (dashboard_body sf v linha) (\<lambda>v'. dashboard_loop sf v' rest)"

record balanco_data =
  bd_saldo_anterior :: rat
  bd_total_receitas :: rat
  bd_total_despesas :: rat
  bd_saldo_corrente :: rat
  bd_saldo_final :: rat

text \<open>
  What the dashboard hands to its template; \<open>dash_balanco\<close> is \<open>None\<close> for the empty
  dictionary of the \<^verbatim>\<open>except\<close> branch.
\<close>

record dashboard_out =
  rec_n_fracoes :: "(string \<times> rat list) list"
  rec_e_fracoes :: "(string \<times> rat list) list"
  despesas_mensais :: "rat list"
  dash_balanco :: "balanco_data option"

text \<open>The \<^verbatim>\<open>try\<close> block of \<^verbatim>\<open>dashboard\<close> on the four tables read.\<close>

definition dashboard_try ::
  "str_float \<Rightarrow> row list \<Rightarrow> row list \<Rightarrow> row list \<Rightarrow> row list \<Rightarrow> error + dashboard_out" where
  "dashboard_try sf receitas_n receitas_e despesas_dbf balanco_dbf =
     bind_err (fracoes_loop sf [] receitas_n) (\<lambda>rec_n.
     bind_err (fracoes_loop sf [] receitas_e) (\<lambda>rec_e.
     bind_err (despesas_loop sf despesas_dbf) (\<lambda>dm.
     let dm' = (if dm = [] then replicate 12 0 else dm) in
     bind_err (dashboard_loop sf db_init balanco_dbf) (\<lambda>v.
     let saldo_final =
           (if db_saldo_final v = 0
            then fsub (fadd (db_saldo_anterior v) (db_total_receitas v)) (db_total_despesas v)
            else db_saldo_final v)
     in Inr \<lparr>rec_n_fracoes = rec_n, rec_e_fracoes = rec_e, despesas_mensais = dm',
             dash_balanco = Some \<lparr>bd_saldo_anterior = db_saldo_anterior v,
                                  bd_total_receitas = db_total_receitas v,
                                  bd_total_despesas = db_total_despesas v,
                                  bd_saldo_corrente = fsub (db_total_receitas v) (db_total_despesas v),
                                  bd_saldo_final = saldo_final\<rparr>\<rparr>))))"

definition dashboard_rows ::
  "str_float \<Rightarrow> row list \<Rightarrow> row list \<Rightarrow> row list \<Rightarrow> row list \<Rightarrow> dashboard_out" where
  "dashboard_rows sf receitas_n receitas_e despesas_dbf balanco_dbf =
     (case dashboard_try sf receitas_n receitas_e despesas_dbf balanco_dbf of
        Inl e \<Rightarrow> \<lparr>rec_n_fracoes = [], rec_e_fracoes = [], despesas_mensais = [],
                  dash_balanco = None\<rparr>
      | Inr out \<Rightarrow> out)"

definition dashboard :: "str_float \<Rightarrow> source \<Rightarrow> dashboard_out" where
  "dashboard sf src =
     dashboard_rows sf (ler_dbf src ''ReceitasN.dbf'') (ler_dbf src ''ReceitasE.dbf'')
       (ler_dbf src ''Despesas.dbf'') (ler_dbf src ''Balanco.dbf'')"

section \<open>Notions used to state the properties\<close>

subsection \<open>The fields of a row as the loops read them\<close>

text \<open>
  The stripped text and the amount of a field, for a row on which reading them raises
  nothing, and the test that the three ledger fields of a row can be read.
\<close>

definition label_of :: "row \<Rightarrow> string \<Rightarrow> string" where
  "label_of linha key = (case get_strip linha key of Inl e \<Rightarrow> [] | Inr s \<Rightarrow> s)"

definition amount_of :: "str_float \<Rightarrow> row \<Rightarrow> string \<Rightarrow> rat" where
  "amount_of sf linha key = (case get_float sf linha key of Inl e \<Rightarrow> 0 | Inr x \<Rightarrow> x)"

definition conta_of :: "row \<Rightarrow> string" where
  "conta_of linha = py_upper (label_of linha ''conta'')"

definition tipo_of :: "row \<Rightarrow> string" where
  "tipo_of linha = py_upper (label_of linha ''tipo'')"

definition valor_of :: "str_float \<Rightarrow> row \<Rightarrow> rat" where
  "valor_of sf linha = amount_of sf linha ''valor''"

definition ledger_ok :: "str_float \<Rightarrow> row \<Rightarrow> bool" where
  "ledger_ok sf linha =
     (\<not> isl (get_strip linha ''conta'') \<and> \<not> isl (get_strip linha ''tipo'') \<and>
      \<not> isl (get_float sf linha ''valor''))"

subsection \<open>Categories\<close>

text \<open>
  The categories of the specification. The branch of a chain that a row takes decides
  the one variable the row is stored in; \<open>FinalBalanceCandidate\<close> is the generic
  TOTAL row, whose store is guarded by the test that no final balance is set.
\<close>

datatype category =
  PreviousBalance | TotalIncome | TotalExpense | FinalBalance | FinalBalanceCandidate
  | ExpenseItem | DepositOrdem | NumerarioCaixa | QuotasNormais | QuotasExtras | Juros
  | Unclassified

text \<open>The tests of the chain of \<^verbatim>\<open>index\<close>, in its order.\<close>

definition index_classify :: "string \<Rightarrow> string \<Rightarrow> category" where
  "index_classify tipo conta =
     (if py_in ''TSA'' conta then PreviousBalance
      else if tipo = ''SUBTOTAL'' \<and> py_in ''SALDO'' conta \<and> py_in ''ANTERIOR'' conta
        then PreviousBalance
      else if py_in ''TOTAL'' conta \<and> py_in ''SALDO'' conta \<and> py_in ''ANTERIOR'' conta
        then PreviousBalance
      else if tipo = ''SUBTOTAL'' \<and> py_in ''RECEITAS'' conta then TotalIncome
      else if py_in ''TOTAL'' conta \<and> py_in ''RECEITAS'' conta then TotalIncome
      else if tipo = ''SUBTOTAL'' \<and> py_in ''DESPESAS'' conta then TotalExpense
      else if py_in ''TOTAL'' conta \<and> py_in ''DESPESAS'' conta then TotalExpense
      else if tipo = ''SALDO'' \<and> py_in ''FINAL'' conta then FinalBalance
      else if tipo = ''TOTAL'' \<and> conta = ''TOTAL'' then FinalBalanceCandidate
      else Unclassified)"

definition ix_accumulate :: "category \<Rightarrow> rat \<Rightarrow> ix_vars \<Rightarrow> ix_vars" where
  "ix_accumulate cat valor v =
     (case cat of
        PreviousBalance \<Rightarrow> v\<lparr>ix_saldo_anterior := valor\<rparr>
      | TotalIncome \<Rightarrow> v\<lparr>ix_total_receitas := valor\<rparr>
      | TotalExpense \<Rightarrow> v\<lparr>ix_total_despesas := valor\<rparr>
      | FinalBalance \<Rightarrow> v\<lparr>ix_saldo_final := valor\<rparr>
      | FinalBalanceCandidate \<Rightarrow>
          (if ix_saldo_final v = 0 then v\<lparr>ix_saldo_final := valor\<rparr> else v)
      | _ \<Rightarrow> v)"

text \<open>The tests of the chain of \<^verbatim>\<open>dashboard\<close>, in its order.\<close>

definition dashboard_classify :: "string \<Rightarrow> string \<Rightarrow> category" where
  "dashboard_classify tipo conta =
     (if py_in ''TSA'' conta then PreviousBalance
      else if tipo = ''SUBTOTAL'' \<and> py_in ''SALDO'' conta \<and> py_in ''ANTERIOR'' conta
        then PreviousBalance
      else if tipo = ''SUBTOTAL'' \<and> py_in ''RECEITAS'' conta then TotalIncome
      else if tipo = ''SUBTOTAL'' \<and> py_in ''DESPESAS'' conta then TotalExpense
      else if tipo = ''SALDO'' \<and> py_in ''FINAL'' conta then FinalBalance
      else if tipo = ''TOTAL'' \<and> conta = ''TOTAL'' then FinalBalanceCandidate
      else Unclassified)"

definition db_accumulate :: "category \<Rightarrow> rat \<Rightarrow> db_vars \<Rightarrow> db_vars" where
  "db_accumulate cat valor v =
     (case cat of
        PreviousBalance \<Rightarrow> v\<lparr>db_saldo_anterior := valor\<rparr>
      | TotalIncome \<Rightarrow> v\<lparr>db_total_receitas := valor\<rparr>
      | TotalExpense \<Rightarrow> v\<lparr>db_total_despesas := valor\<rparr>
      | FinalBalance \<Rightarrow> v\<lparr>db_saldo_final := valor\<rparr>
      | FinalBalanceCandidate \<Rightarrow>
          (if db_saldo_final v = 0 then v\<lparr>db_saldo_final := valor\<rparr> else v)
      | _ \<Rightarrow> v)"

text \<open>The tests of the chain of \<^verbatim>\<open>balanco\<close>, in its order: the type DESPESA comes first.\<close>

definition balanco_classify :: "string \<Rightarrow> string \<Rightarrow> category" where
  "balanco_classify tipo conta =
     (if tipo = ''DESPESA'' then ExpenseItem
      else if py_in ''TSA'' conta then PreviousBalance
      else if tipo = ''SUBTOTAL'' \<and> py_in ''SALDO'' conta \<and> py_in ''ANTERIOR'' conta
        then PreviousBalance
      else if py_in (''DEP'' @ [char_of (211 :: nat)] @ ''SITO ORDEM'') conta
              \<or> py_in ''DEPOSITO ORDEM'' conta
        then DepositOrdem
      else if py_in (''NUMER'' @ [char_of (193 :: nat)] @ ''RIO CAIXA'') conta
              \<or> py_in ''NUMERARIO CAIXA'' conta
        then NumerarioCaixa
      else if tipo = ''SUBTOTAL'' \<and> py_in ''DESPESAS'' conta then TotalExpense
      else if py_in ''QUOTAS NORMAIS'' conta then QuotasNormais
      else if py_in ''QUOTAS EXTRAS'' conta then QuotasExtras
      else if py_in ''JUROS'' conta \<and> tipo = ''RECEITA'' then Juros
      else if tipo = ''SUBTOTAL'' \<and> py_in ''RECEITAS'' conta then TotalIncome
      else if tipo = ''SALDO'' \<and> py_in ''FINAL'' conta then FinalBalance
      else Unclassified)"

definition bl_accumulate :: "category \<Rightarrow> string \<Rightarrow> rat \<Rightarrow> bl_vars \<Rightarrow> bl_vars" where
  "bl_accumulate cat nome valor v =
     (case cat of
        ExpenseItem \<Rightarrow> v\<lparr>bl_despesas_lista := bl_despesas_lista v @ [(nome, valor)]\<rparr>
      | PreviousBalance \<Rightarrow> v\<lparr>bl_saldo_anterior_total := valor\<rparr>
      | DepositOrdem \<Rightarrow> v\<lparr>bl_deposito_ordem := valor\<rparr>
      | NumerarioCaixa \<Rightarrow> v\<lparr>bl_numerario_caixa := valor\<rparr>
      | TotalExpense \<Rightarrow> v\<lparr>bl_total_despesas := valor\<rparr>
      | QuotasNormais \<Rightarrow> v\<lparr>bl_quotas_normais := valor\<rparr>
      | QuotasExtras \<Rightarrow> v\<lparr>bl_quotas_extras := valor\<rparr>
      | Juros \<Rightarrow> v\<lparr>bl_juros := valor\<rparr>
      | TotalIncome \<Rightarrow> v\<lparr>bl_total_receitas := valor\<rparr>
      | FinalBalance \<Rightarrow> v\<lparr>bl_saldo_final := valor\<rparr>
      | _ \<Rightarrow> v)"

subsection \<open>Concrete ledgers\<close>

definition ledger_row :: "string \<Rightarrow> string \<Rightarrow> pyval \<Rightarrow> row" where
  "ledger_row conta tipo valor =
     [''conta'' \<mapsto> PyStr conta, ''tipo'' \<mapsto> PyStr tipo, ''valor'' \<mapsto> valor]"

definition sample_rows :: "row list" where
  "sample_rows =
     [ledger_row ''TSA'' ''SUBTOTAL'' (PyNum 100),
      ledger_row ''Receitas'' ''SUBTOTAL'' (PyNum 50),
      ledger_row '' Luz'' ''Despesa'' (PyNum 10),
      ledger_row ''Luz'' ''DESPESA'' (PyNum 20),
      ledger_row ''Despesas'' ''SUBTOTAL'' (PyNum 30)]"

definition sample_bl :: bl_vars where
  "sample_bl = \<lparr>bl_despesas_lista = [(''Luz'', 10), (''Luz'', 20)], bl_total_despesas = 30,
                 bl_total_receitas = 50, bl_quotas_normais = 0, bl_quotas_extras = 0,
                 bl_juros = 0, bl_saldo_anterior_total = 100, bl_deposito_ordem = 0,
                 bl_numerario_caixa = 0, bl_saldo_final = 0\<rparr>"

definition sample_ix :: ix_vars where
  "sample_ix = \<lparr>ix_total_receitas = 50, ix_total_despesas = 30, ix_saldo_anterior = 100,
                 ix_saldo_final = 0\<rparr>"

definition sample_source :: source where
  "sample_source = (\<lambda>nome. if nome = ''Balanco.dbf'' then Some sample_rows else None)"

text \<open>The three rows of the balance identity of the specification.\<close>

definition identity_rows :: "row list" where
  "identity_rows =
     [ledger_row ''TSA'' ''SUBTOTAL'' (PyNum 100),
      ledger_row ''TOTAL RECEITAS'' ''TOTAL'' (PyNum 50),
      ledger_row ''TOTAL DESPESAS'' ''TOTAL'' (PyNum 30)]"

text \<open>A previous balance of 0.10 and expenses of 0.70, as the table writes them.\<close>

definition cents_rows :: "row list" where
  "cents_rows =
     [ledger_row ''TSA'' ''SUBTOTAL'' (PyNum (1 / 10)),
      ledger_row ''DESPESAS'' ''SUBTOTAL'' (PyNum (7 / 10))]"

text \<open>A row of type DESPESA whose label is TSA, and the row an amount of which is a text.\<close>

definition tsa_despesa_row :: row where
  "tsa_despesa_row = ledger_row ''TSA'' ''DESPESA'' (PyNum 5)"

definition tsa_subtotal_row :: row where
  "tsa_subtotal_row = ledger_row ''TSA'' ''SUBTOTAL'' (PyNum 100)"

definition text_amount_row :: row where
  "text_amount_row = ledger_row ''Luz'' ''DESPESA'' (PyStr ''abc'')"

definition null_amount_row :: row where
  "null_amount_row = ledger_row ''Luz'' ''DESPESA'' PyNone"

text \<open>Two generic TOTAL rows of 0 and 20; two income rows then two generic TOTAL rows.\<close>

definition generic_rows :: "row list" where
  "generic_rows = [ledger_row ''TOTAL'' ''TOTAL'' (PyNum 0), ledger_row ''TOTAL'' ''TOTAL'' (PyNum 20)]"

definition income_row_50 :: row where
  "income_row_50 = ledger_row ''RECEITAS'' ''SUBTOTAL'' (PyNum 50)"

definition income_row_80 :: row where
  "income_row_80 = ledger_row ''RECEITAS'' ''SUBTOTAL'' (PyNum 80)"

definition generic_row_10 :: row where
  "generic_row_10 = ledger_row ''TOTAL'' ''TOTAL'' (PyNum 10)"

definition generic_row_20 :: row where
  "generic_row_20 = ledger_row ''TOTAL'' ''TOTAL'' (PyNum 20)"

definition saldo_final_row :: row where
  "saldo_final_row = ledger_row ''FINAL'' ''SALDO'' (PyNum 5)"

subsection \<open>Slots of the overview\<close>

definition ix_cat :: "row \<Rightarrow> category" where
  "ix_cat linha = index_classify (tipo_of linha) (conta_of linha)"

text \<open>The variable of the overview that holds a category.\<close>

definition ix_slot :: "category \<Rightarrow> ix_vars \<Rightarrow> rat" where
  "ix_slot cat v =
     (case cat of
        PreviousBalance \<Rightarrow> ix_saldo_anterior v
      | TotalIncome \<Rightarrow> ix_total_receitas v
      | TotalExpense \<Rightarrow> ix_total_despesas v
      | _ \<Rightarrow> ix_saldo_final v)"

subsection \<open>Rows of the tables by month\<close>

definition fracao_of :: "row \<Rightarrow> string" where
  "fracao_of linha = label_of linha ''fraccao''"

definition entity_row :: "row \<Rightarrow> bool" where
  "entity_row linha = (fracao_of linha \<noteq> [] \<and> py_upper (fracao_of linha) \<noteq> ''TOTAIS'')"

definition totais_row :: "row \<Rightarrow> bool" where
  "totais_row linha = (py_upper (label_of linha ''despesas'') = ''TOTAIS'')"

text \<open>The twelve values of a row, from January to December.\<close>

definition year_of :: "str_float \<Rightarrow> row \<Rightarrow> rat list" where
  "year_of sf linha =
     [amount_of sf linha ''jan'', amount_of sf linha ''fev'', amount_of sf linha ''mar'',
      amount_of sf linha ''abr'', amount_of sf linha ''mai'', amount_of sf linha ''jun'',
      amount_of sf linha ''jul'', amount_of sf linha ''ago'', amount_of sf linha ''set'',
      amount_of sf linha ''out'', amount_of sf linha ''nov'', amount_of sf linha ''dez'']"

text \<open>The default output of the dashboard, of its \<^verbatim>\<open>except\<close> branch.\<close>

definition dashboard_default :: dashboard_out where
  "dashboard_default =
     \<lparr>rec_n_fracoes = [], rec_e_fracoes = [], despesas_mensais = [], dash_balanco = None\<rparr>"

text \<open>
  Rows of a table of receipts: two rows of the entity A, the first with a padded label,
  a row of totals and a row without a label, both with a January that is not a number.
\<close>

definition row_a_first :: row where
  "row_a_first =
     [''dez'' \<mapsto> PyNum 12, ''fraccao'' \<mapsto> PyStr '' A '', ''fev'' \<mapsto> PyNum 2, ''jan'' \<mapsto> PyNum 1]"

definition row_totais_text :: row where
  "row_totais_text = [''fraccao'' \<mapsto> PyStr ''Totais'', ''jan'' \<mapsto> PyStr ''abc'']"

definition row_blank_text :: row where
  "row_blank_text = [''fraccao'' \<mapsto> PyStr '' '', ''jan'' \<mapsto> PyStr ''abc'']"

definition row_a_last :: row where
  "row_a_last =
     [''nov'' \<mapsto> PyNum 11, ''fraccao'' \<mapsto> PyStr ''A'', ''mar'' \<mapsto> PyNum 3, ''jan'' \<mapsto> PyNone]"

definition receitas_n_rows :: "row list" where
  "receitas_n_rows = [row_a_first, row_totais_text, row_blank_text, row_a_last]"

text \<open>A row of the entity A with a January that is not a number.\<close>

definition row_a_text :: row where
  "row_a_text = [''fraccao'' \<mapsto> PyStr ''A'', ''jan'' \<mapsto> PyStr ''abc'']"

text \<open>
  Rows of a table of expenses: a row that is not of totals and a second row of totals,
  both with a month that is not a number, around the first row of totals.
\<close>

definition desp_luz_text :: row where
  "desp_luz_text = [''despesas'' \<mapsto> PyStr ''Luz'', ''jan'' \<mapsto> PyStr ''abc'']"

definition desp_totais :: row where
  "desp_totais =
     [''out'' \<mapsto> PyNum 10, ''despesas'' \<mapsto> PyStr ''totais'', ''jan'' \<mapsto> PyNum 7,
      ''fev'' \<mapsto> PyStr []]"

definition desp_totais_text :: row where
  "desp_totais_text = [''despesas'' \<mapsto> PyStr ''TOTAIS'', ''fev'' \<mapsto> PyStr ''abc'']"

definition despesas_rows :: "row list" where
  "despesas_rows = [desp_luz_text, desp_totais, desp_totais_text]"

text \<open>What the dashboard gives on these two tables by month.\<close>

definition month_out :: dashboard_out where
  "month_out =
     \<lparr>rec_n_fracoes = [(''A'', [0, 0, 3, 0, 0, 0, 0, 0, 0, 0, 11, 0])], rec_e_fracoes = [],
      despesas_mensais = [7, 0, 0, 0, 0, 0, 0, 0, 0, 10, 0, 0],
      dash_balanco = Some \<lparr>bd_saldo_anterior = 0, bd_total_receitas = 0, bd_total_despesas = 0,
                           bd_saldo_corrente = 0, bd_saldo_final = 0\<rparr>\<rparr>"

section \<open>Rounding to a double\<close>

lemma int_pow2_bounds:
  assumes "0 < (p::int)"
  shows "(2::rat) powi (bitlen p - 1) \<le> of_int p" and "of_int p < (2::rat) powi bitlen p"
proof -
  have b: "2 ^ nat (bitlen p - 1) \<le> p" "p < 2 ^ nat (bitlen p)"
    using bitlen_bounds[OF assms] by simp_all
  have ge1: "1 \<le> bitlen p"
    using assms bitlen_nonneg[of p] bitlen_eq_zero_iff[of p] by linarith
  have "(2::rat) powi (bitlen p - 1) = of_int (2 ^ nat (bitlen p - 1))"
    using ge1 by (simp add: power_int_nonneg_exp)
  also have "\<dots> \<le> of_int p"
    using b(1) by (simp only: of_int_le_iff)
  finally show "(2::rat) powi (bitlen p - 1) \<le> of_int p" .
  have "(of_int p :: rat) < of_int (2 ^ nat (bitlen p))"
    using b(2) by (simp only: of_int_less_iff)
  also have "\<dots> = 2 powi bitlen p"
    using ge1 by (simp add: power_int_nonneg_exp)
  finally show "of_int p < (2::rat) powi bitlen p" .
qed

lemma expo_bounds:
  assumes "x \<noteq> 0"
  shows "2 powi expo x \<le> \<bar>x\<bar>" and "\<bar>x\<bar> < 2 powi (expo x + 1)"
proof -
  obtain p q where pq: "quotient_of \<bar>x\<bar> = (p, q)"
    by (cases "quotient_of \<bar>x\<bar>")
  have qpos: "0 < q"
    using quotient_of_denom_pos[OF pq] .
  have xeq: "\<bar>x\<bar> = of_int p / of_int q"
    using quotient_of_div[OF pq] .
  have "0 < \<bar>x\<bar>"
    using assms by simp
  then have ppos: "0 < p"
    using qpos unfolding xeq by (simp add: zero_less_divide_iff)
  define d where "d = bitlen p - bitlen q"
  note P = int_pow2_bounds[OF ppos] and Q = int_pow2_bounds[OF qpos]
  have lo: "2 powi (d - 1) < \<bar>x\<bar>"
  proof -
    have "d - 1 = (bitlen p - 1) - bitlen q"
      by (simp add: d_def)
    then have "(2::rat) powi (d - 1) = 2 powi (bitlen p - 1) / 2 powi bitlen q"
      by (simp only: power_int_diff[of "2::rat" "bitlen p - 1" "bitlen q", simplified])
    also have "\<dots> < of_int p / of_int q"
      using P(1) Q(2) qpos by (intro frac_less2) simp_all
    finally show ?thesis by (simp add: xeq)
  qed
  have hi: "\<bar>x\<bar> < 2 powi (d + 1)"
  proof -
    have "of_int p / of_int q < (2::rat) powi bitlen p / 2 powi (bitlen q - 1)"
      using P(2) Q(1) ppos by (intro frac_less) simp_all
    also have "\<dots> = 2 powi (d + 1)"
    proof -
      have "d + 1 = bitlen p - (bitlen q - 1)"
        by (simp add: d_def)
      then show ?thesis
        by (simp only: power_int_diff[of "2::rat" "bitlen p" "bitlen q - 1", simplified])
    qed
    finally show ?thesis by (simp add: xeq)
  qed
  have e: "expo x = (if \<bar>x\<bar> < 2 powi d then d - 1 else d)"
    by (simp add: expo_def pq d_def Let_def)
  show "2 powi expo x \<le> \<bar>x\<bar>"
    using lo by (simp add: e)
  show "\<bar>x\<bar> < 2 powi (expo x + 1)"
    using hi by (simp add: e)
qed

lemma expo_unique:
  assumes "2 powi e \<le> \<bar>x\<bar>" and "\<bar>x\<bar> < 2 powi (e + 1)"
  shows "expo x = e"
proof -
  have nz: "x \<noteq> 0"
  proof
    assume "x = 0"
    with assms(1) have "(2::rat) powi e \<le> 0"
      by simp
    then show False
      by (metis zero_less_power_int zero_less_numeral not_le)
  qed
  note B = expo_bounds[OF nz]
  have "(2::rat) powi e < 2 powi (expo x + 1)"
    using assms(1) B(2) by linarith
  then have 1: "e < expo x + 1"
    by (metis linorder_not_less power_int_increasing one_le_numeral)
  have "(2::rat) powi expo x < 2 powi (e + 1)"
    using assms(2) B(1) by linarith
  then have 2: "expo x < e + 1"
    by (metis linorder_not_less power_int_increasing one_le_numeral)
  from 1 2 show ?thesis by linarith
qed

lemma rhe_of_int: "round_half_even (of_int n) = n"
  by (simp add: round_half_even_def)

lemma rhe_lower:
  assumes "of_int a \<le> y"
  shows "a \<le> round_half_even y"
proof -
  have "a \<le> \<lfloor>y\<rfloor>"
    using assms by (simp add: le_floor_iff)
  then show ?thesis
    by (simp add: round_half_even_def Let_def)
qed

lemma rhe_upper:
  assumes "y \<le> of_int b"
  shows "round_half_even y \<le> b"
proof (cases "y - of_int \<lfloor>y\<rfloor> < 1 / 2")
  case True
  have "\<lfloor>y\<rfloor> \<le> b"
    using assms by (simp add: floor_le_iff)
  with True show ?thesis
    by (simp add: round_half_even_def Let_def)
next
  case False
  then have "of_int \<lfloor>y\<rfloor> < y"
    by linarith
  with assms have "(of_int \<lfloor>y\<rfloor> :: rat) < of_int b"
    by linarith
  then have "\<lfloor>y\<rfloor> < b"
    by (simp only: of_int_less_iff)
  then show ?thesis
    by (simp add: round_half_even_def Let_def)
qed


lemma rnd_exact_int:
  assumes "x \<noteq> 0" and "x / 2 powi (expo x - 52) = of_int m"
  shows "rnd x = x"
proof -
  have "rnd x = of_int (round_half_even (of_int m)) * 2 powi (expo x - 52)"
    using assms by (simp add: rnd_def Let_def)
  also have "\<dots> = x / 2 powi (expo x - 52) * 2 powi (expo x - 52)"
    by (simp add: rhe_of_int assms(2))
  also have "\<dots> = x"
    by simp
  finally show ?thesis .
qed

lemma expo_scale:
  assumes "x \<noteq> 0"
  shows "expo (x * 2 powi k) = expo x + k"
proof (rule expo_unique)
  note B = expo_bounds[OF assms]
  have pos: "0 < (2::rat) powi k"
    by simp
  have "2 powi (expo x + k) = 2 powi expo x * (2::rat) powi k"
    by (simp add: power_int_add)
  also have "\<dots> \<le> \<bar>x\<bar> * 2 powi k"
    using B(1) pos by (simp only: mult_le_cancel_right_pos)
  finally show "2 powi (expo x + k) \<le> \<bar>x * 2 powi k\<bar>"
    by (simp add: abs_mult)
  have "\<bar>x\<bar> * 2 powi k < 2 powi (expo x + 1) * (2::rat) powi k"
    using B(2) pos by (simp only: mult_less_cancel_right_pos)
  also have "\<dots> = 2 powi (expo x + k + 1)"
    by (simp add: power_int_add)
  finally show "\<bar>x * 2 powi k\<bar> < 2 powi (expo x + k + 1)"
    by (simp add: abs_mult)
qed

lemma rnd_fix:
  assumes "\<bar>n\<bar> \<le> 2 ^ 53"
  shows "rnd (of_int n * 2 powi k) = of_int n * 2 powi k"
proof (cases "n = 0")
  case True
  then show ?thesis by (simp add: rnd_def)
next
  case False
  define e where "e = expo (of_int n)"
  have nz: "(of_int n :: rat) \<noteq> 0"
    using False by simp
  note B = expo_bounds[OF nz, folded e_def]
  have abs_n: "\<bar>of_int n :: rat\<bar> = of_int \<bar>n\<bar>"
    by simp
  have e_le: "e \<le> 53"
  proof -
    have "(of_int \<bar>n\<bar> :: rat) \<le> of_int (2 ^ 53)"
      using assms by (simp only: of_int_le_iff)
    then have "(2::rat) powi e \<le> 2 powi 53"
      using B(1) unfolding abs_n by simp
    then show ?thesis
      by (rule power_int_le_imp_le_exp[rotated]) simp_all
  qed
  have e_ge: "0 \<le> e"
  proof (rule ccontr)
    assume "\<not> 0 \<le> e"
    then have "e + 1 \<le> 0" by simp
    then have "(2::rat) powi (e + 1) \<le> 2 powi 0"
      by (intro power_int_increasing) simp_all
    with B(2) have "(of_int \<bar>n\<bar> :: rat) < of_int 1"
      unfolding abs_n by simp
    then have "\<bar>n\<bar> < 1"
      by (simp only: of_int_less_iff)
    with False show False by simp
  qed
  let ?y = "of_int n * (2::rat) powi k"
  have ynz: "?y \<noteq> 0"
    using nz by simp
  have ey: "expo ?y = e + k"
    using expo_scale[OF nz] by (simp add: e_def)
  have q: "?y / 2 powi (expo ?y - 52) = of_int n * 2 powi (52 - e)"
  proof -
    have "k - (e + k - 52) = 52 - e" by simp
    then have "(2::rat) powi k / 2 powi (e + k - 52) = 2 powi (52 - e)"
      using power_int_diff[of "2::rat" k "e + k - 52"] by simp
    then show ?thesis
      unfolding ey by (simp add: field_simps)
  qed
  show ?thesis
  proof (cases "e \<le> 52")
    case True
    then have "(2::rat) powi (52 - e) = of_int (2 ^ nat (52 - e))"
      by (simp add: power_int_nonneg_exp)
    then have "?y / 2 powi (expo ?y - 52) = of_int (n * 2 ^ nat (52 - e))"
      unfolding q by simp
    then show ?thesis
      by (rule rnd_exact_int[OF ynz])
  next
    case False
    with e_le have e53: "e = 53" by simp
    have "(of_int (2 ^ 53) :: rat) \<le> of_int \<bar>n\<bar>"
      using B(1) unfolding abs_n e53 by simp
    then have "2 ^ 53 \<le> \<bar>n\<bar>"
      by (simp only: of_int_le_iff)
    with assms have "\<bar>n\<bar> = 2 ^ 53" by simp
    then have "n = 2 ^ 53 \<or> n = - (2 ^ 53)"
      by linarith
    then have "n = 2 * (n div 2)"
      by auto
    then have "(of_int n :: rat) = 2 * of_int (n div 2)"
      by (metis of_int_mult of_int_numeral)
    then have "?y / 2 powi (expo ?y - 52) = of_int (n div 2)"
      unfolding q e53 by (simp add: power_int_minus_divide)
    then show ?thesis
      by (rule rnd_exact_int[OF ynz])
  qed
qed

lemma rnd_form:
  "\<exists>n k. \<bar>n\<bar> \<le> 2 ^ 53 \<and> rnd x = of_int n * 2 powi k"
proof (cases "x = 0")
  case True
  have "\<bar>0::int\<bar> \<le> 2 ^ 53 \<and> rnd x = of_int 0 * 2 powi 0"
    using True by (simp add: rnd_def)
  then show ?thesis by blast
next
  case False
  define k where "k = expo x - 52"
  define y where "y = x / 2 powi k"
  note B = expo_bounds[OF False]
  have pos: "0 < (2::rat) powi k" by simp
  have "\<bar>y\<bar> = \<bar>x\<bar> / 2 powi k"
    by (simp add: y_def abs_divide)
  also have "\<dots> < 2 powi (expo x + 1) / 2 powi k"
    using B(2) pos by (simp only: divide_strict_right_mono)
  also have "\<dots> = 2 powi 53"
    using power_int_diff[of "2::rat" "expo x + 1" k] by (simp add: k_def)
  finally have ylt: "\<bar>y\<bar> < of_int (2 ^ 53)"
    by simp
  have "round_half_even y \<le> 2 ^ 53"
    using ylt by (intro rhe_upper) linarith
  moreover have "- (2 ^ 53) \<le> round_half_even y"
  proof (rule rhe_lower)
    have "- of_int (2 ^ 53) < y"
      using ylt by linarith
    then show "of_int (- (2 ^ 53)) \<le> y"
      by simp
  qed
  ultimately have "\<bar>round_half_even y\<bar> \<le> 2 ^ 53"
    by simp
  moreover have "rnd x = of_int (round_half_even y) * 2 powi k"
    using False by (simp add: rnd_def Let_def k_def y_def)
  ultimately show ?thesis by blast
qed

lemma rnd_idem: "rnd (rnd x) = rnd x"
proof -
  obtain n k where "\<bar>n\<bar> \<le> 2 ^ 53" and "rnd x = of_int n * 2 powi k"
    using rnd_form by blast
  then show ?thesis
    by (simp add: rnd_fix)
qed

lemma rnd_of_int:
  assumes "\<bar>n\<bar> \<le> 2 ^ 53"
  shows "rnd (of_int n) = of_int n"
  using rnd_fix[OF assms, of 0] by simp

section \<open>One pass of each loop\<close>

lemma bind_err_simps [simp]:
  "bind_err (Inl e) f = Inl e"
  "bind_err (Inr x) f = f x"
  by (simp_all add: bind_err_def)

lemma ledger_okD:
  assumes "ledger_ok sf linha"
  shows "get_strip linha ''conta'' = Inr (label_of linha ''conta'')"
    and "get_strip linha ''tipo'' = Inr (label_of linha ''tipo'')"
    and "get_float sf linha ''valor'' = Inr (valor_of sf linha)"
  using assms
  by (auto simp: ledger_ok_def label_of_def valor_of_def amount_of_def split: sum.splits)

lemma index_body_ok:
  assumes "ledger_ok sf linha"
  shows "index_body sf v linha =
         Inr (ix_accumulate (index_classify (tipo_of linha) (conta_of linha)) (valor_of sf linha) v)"
  unfolding index_body_def ledger_okD[OF assms] bind_err_simps Let_def index_classify_def
    tipo_of_def conta_of_def
  apply (simp only: if_distrib[of "\<lambda>c. ix_accumulate c (valor_of sf linha) v"])
  apply (simp only: ix_accumulate_def category.case)
  done

lemma index_body_err:
  assumes "\<not> ledger_ok sf linha"
  shows "isl (index_body sf v linha)"
  using assms unfolding index_body_def ledger_ok_def
  by (auto simp: Let_def bind_err_def split: sum.splits)

lemma dashboard_body_ok:
  assumes "ledger_ok sf linha"
  shows "dashboard_body sf v linha =
         Inr (db_accumulate (dashboard_classify (tipo_of linha) (conta_of linha)) (valor_of sf linha) v)"
  unfolding dashboard_body_def ledger_okD[OF assms] bind_err_simps Let_def dashboard_classify_def
    tipo_of_def conta_of_def
  apply (simp only: if_distrib[of "\<lambda>c. db_accumulate c (valor_of sf linha) v"])
  apply (simp only: db_accumulate_def category.case)
  done

lemma dashboard_body_err:
  assumes "\<not> ledger_ok sf linha"
  shows "isl (dashboard_body sf v linha)"
  using assms unfolding dashboard_body_def ledger_ok_def
  by (auto simp: Let_def bind_err_def split: sum.splits)

lemma balanco_body_ok:
  assumes "ledger_ok sf linha"
  shows "balanco_body sf v linha =
         Inr (bl_accumulate (balanco_classify (tipo_of linha) (conta_of linha))
                (label_of linha ''conta'') (valor_of sf linha) v)"
  unfolding balanco_body_def ledger_okD[OF assms] bind_err_simps Let_def balanco_classify_def
    tipo_of_def conta_of_def
  apply (simp only: if_distrib[of "\<lambda>c. bl_accumulate c (label_of linha ''conta'') (valor_of sf linha) v"])
  apply (simp only: bl_accumulate_def category.case)
  apply (simp only: if_distrib[of Inr])
  done

lemma balanco_body_err:
  assumes "\<not> ledger_ok sf linha"
  shows "isl (balanco_body sf v linha)"
  using assms unfolding balanco_body_def ledger_ok_def
  by (auto simp: Let_def bind_err_def split: sum.splits)

section \<open>The sample ledger\<close>

lemma balanco_loop_sample: "balanco_loop sf bl_init sample_rows = Inr sample_bl"
  by code_simp

lemma index_loop_sample: "index_loop sf ix_init sample_rows = Inr sample_ix"
  by code_simp

lemma balanco_rows_loop:
  "balanco_loop sf bl_init rows = Inr v \<Longrightarrow> balanco_rows sf rows = Inr (balanco_final v)"
  by (simp add: balanco_rows_def)

lemma balanco_rows_Inr:
  assumes "balanco_rows sf rows = Inr out"
  obtains v where "balanco_loop sf bl_init rows = Inr v" and "out = balanco_final v"
  using assms by (auto simp: balanco_rows_def bind_err_def split: sum.splits)

lemma fmt2_values:
  "fmt2 0 = ''0.00''" "fmt2 30 = ''30.00''" "fmt2 50 = ''50.00''"
  "fmt2 100 = ''100.00''" "fmt2 120 = ''120.00''"
  by (simp_all add: fmt2_def round_half_even_def digits10.simps digit_char_def)

lemma float_values:
  "fadd 0 0 = 0" "fsub 0 0 = 0" "fadd 100 0 = 100" "fsub 100 0 = 100" "fadd 0 100 = 100"
  "fadd 100 50 = 150" "fsub 150 30 = 120" "fadd 30 120 = 150"
  by code_simp+

lemma index_loop_identity:
  "index_loop sf ix_init identity_rows =
   Inr \<lparr>ix_total_receitas = 50, ix_total_despesas = 30, ix_saldo_anterior = 100, ix_saldo_final = 0\<rparr>"
  by code_simp

lemma balanco_loop_identity:
  "balanco_loop sf bl_init identity_rows = Inr (bl_init\<lparr>bl_saldo_anterior_total := 100\<rparr>)"
  by code_simp

section \<open>The claims\<close>

subsection \<open>The balance sheet and its identity\<close>

text \<open>
  C10. In the output of the balance-sheet view the field \<^verbatim>\<open>deposito_poupanca\<close> of the
  previous-balance breakdown is 0.0 for every input: no row is ever stored in it.
\<close>

theorem deposito_poupanca_zero:
  assumes "balanco sf src = Inr out"
  shows "deposito_poupanca (saldo_anterior out) = 0"
proof -
  from assms obtain v where "out = balanco_final v"
    unfolding balanco_def by (rule balanco_rows_Inr)
  then show ?thesis
    by (simp add: balanco_final_def Let_def)
qed

theorem deposito_poupanca_zero_witness:
  "balanco float_of_digits sample_source = Inr (balanco_final sample_bl) \<and>
   deposito_poupanca (saldo_anterior (balanco_final sample_bl)) = 0"
proof -
  have h: "balanco float_of_digits sample_source = Inr (balanco_final sample_bl)"
    by (simp add: balanco_def sample_source_def ler_dbf_def balanco_rows_loop balanco_loop_sample)
  show ?thesis
    using h deposito_poupanca_zero [OF h] by simp
qed

text \<open>
  C1. For the rows \<^verbatim>\<open>[{conta:"TSA", tipo:"SUBTOTAL", valor:100}, {conta:"TOTAL RECEITAS",
  tipo:"TOTAL", valor:50}, {conta:"TOTAL DESPESAS", tipo:"TOTAL", valor:30}]\<close> the
  specification expects previous balance 100, income 50, expenses 30, final balance 120 and credits and
  debits of 150. The overview gives the first four. The balance sheet, the one view that
  computes credits and debits, has no test for a label with TOTAL and RECEITAS (or
  DESPESAS) under a type other than SUBTOTAL: it leaves income and expenses at 0 and
  gives a final balance, credits and debits of 100.
\<close>

theorem balance_identity_rows:
  "index_resumo sf identity_rows =
     \<lparr>resumo_total_receitas = ''50.00'', resumo_total_despesas = ''30.00'',
      resumo_saldo_anterior = ''100.00'', resumo_saldo_final = ''120.00''\<rparr> \<and>
   balanco_rows sf identity_rows =
     Inr \<lparr>despesas = [], total_despesas = 0,
          saldo_anterior = \<lparr>deposito_poupanca = 0, deposito_ordem = 0, numerario_caixa = 0,
                             saldo_anterior_total = 100\<rparr>,
          receitas = \<lparr>quotas_normais = 0, quotas_extras = 0, juros = 0, receitas_total = 0\<rparr>,
          saldo_final = 100, total_debitos = 100, total_creditos = 100\<rparr>"
proof
  show "index_resumo sf identity_rows =
     \<lparr>resumo_total_receitas = ''50.00'', resumo_total_despesas = ''30.00'',
      resumo_saldo_anterior = ''100.00'', resumo_saldo_final = ''120.00''\<rparr>"
    by (simp add: index_resumo_def index_loop_identity float_values fmt2_values)
  show "balanco_rows sf identity_rows =
     Inr \<lparr>despesas = [], total_despesas = 0,
          saldo_anterior = \<lparr>deposito_poupanca = 0, deposito_ordem = 0, numerario_caixa = 0,
                             saldo_anterior_total = 100\<rparr>,
          receitas = \<lparr>quotas_normais = 0, quotas_extras = 0, juros = 0, receitas_total = 0\<rparr>,
          saldo_final = 100, total_debitos = 100, total_creditos = 100\<rparr>"
    by (simp add: balanco_rows_loop [OF balanco_loop_identity] balanco_final_def bl_init_def
        float_values)
qed

text \<open>
  C5. After the loop, a final balance of 0.0 is replaced by previous balance + income
  - expenses; the balance sheet computes in every case the credits as previous balance +
  income and the debits as expenses + final balance, with the final balance read or
  derived. The overview formats the same final balance.
\<close>

theorem fallback_resolver:
  assumes "balanco_loop sf bl_init rows = Inr v" and "index_loop sf ix_init rows = Inr w"
  shows "(\<exists>out. balanco_rows sf rows = Inr out \<and>
           saldo_anterior_total (saldo_anterior out) = bl_saldo_anterior_total v \<and>
           receitas_total (receitas out) = bl_total_receitas v \<and>
           total_despesas out = bl_total_despesas v \<and>
           saldo_final out =
             (if bl_saldo_final v = 0
              then fsub (fadd (bl_saldo_anterior_total v) (bl_total_receitas v)) (bl_total_despesas v)
              else bl_saldo_final v) \<and>
           total_creditos out = fadd (bl_saldo_anterior_total v) (bl_total_receitas v) \<and>
           total_debitos out = fadd (bl_total_despesas v) (saldo_final out)) \<and>
         resumo_saldo_final (index_resumo sf rows) =
           fmt2 (if ix_saldo_final w = 0
                 then fsub (fadd (ix_saldo_anterior w) (ix_total_receitas w)) (ix_total_despesas w)
                 else ix_saldo_final w)"
proof
  have "balanco_rows sf rows = Inr (balanco_final v)"
    using assms(1) by (rule balanco_rows_loop)
  then show "\<exists>out. balanco_rows sf rows = Inr out \<and>
           saldo_anterior_total (saldo_anterior out) = bl_saldo_anterior_total v \<and>
           receitas_total (receitas out) = bl_total_receitas v \<and>
           total_despesas out = bl_total_despesas v \<and>
           saldo_final out =
             (if bl_saldo_final v = 0
              then fsub (fadd (bl_saldo_anterior_total v) (bl_total_receitas v)) (bl_total_despesas v)
              else bl_saldo_final v) \<and>
           total_creditos out = fadd (bl_saldo_anterior_total v) (bl_total_receitas v) \<and>
           total_debitos out = fadd (bl_total_despesas v) (saldo_final out)"
    by (simp add: balanco_final_def Let_def)
  show "resumo_saldo_final (index_resumo sf rows) =
           fmt2 (if ix_saldo_final w = 0
                 then fsub (fadd (ix_saldo_anterior w) (ix_total_receitas w)) (ix_total_despesas w)
                 else ix_saldo_final w)"
    using assms(2) by (simp add: index_resumo_def Let_def)
qed

theorem fallback_resolver_witness:
  "balanco_loop float_of_digits bl_init sample_rows = Inr sample_bl \<and>
   index_loop float_of_digits ix_init sample_rows = Inr sample_ix \<and>
   (\<exists>out. balanco_rows float_of_digits sample_rows = Inr out \<and>
      saldo_final out = 120 \<and> total_creditos out = 150 \<and> total_debitos out = 150) \<and>
   resumo_saldo_final (index_resumo float_of_digits sample_rows) = ''120.00''"
proof -
  have b: "balanco_loop float_of_digits bl_init sample_rows = Inr sample_bl"
    by (rule balanco_loop_sample)
  have i: "index_loop float_of_digits ix_init sample_rows = Inr sample_ix"
    by (rule index_loop_sample)
  note r = fallback_resolver [OF b i]
  from r obtain out where
    "balanco_rows float_of_digits sample_rows = Inr out"
    "saldo_final out = 120 \<and> total_creditos out = 150 \<and> total_debitos out = 150"
    by (auto simp: sample_bl_def float_values)
  moreover have "resumo_saldo_final (index_resumo float_of_digits sample_rows) = ''120.00''"
    using r by (simp add: sample_ix_def float_values fmt2_values)
  ultimately show ?thesis
    using b i by blast
qed

text \<open>
  C9, as claimed: whenever the final balance is derived by the fallback, the debits equal
  the credits exactly. With a previous balance of 0.10 and expenses of 0.70 the final
  balance is derived, the credits are the double 0.1 and the debits are the double below
  it, 0.09999999999999998: the subtraction 0.1 - 0.7 is rounded.
\<close>

theorem debits_credits_counterexample:
  "map_sum id bl_saldo_final (balanco_loop float_of_digits bl_init cents_rows) = Inr 0 \<and>
   map_sum id (\<lambda>out. (total_creditos out, total_debitos out))
     (balanco_rows float_of_digits cents_rows) =
   Inr (3602879701896397 / 2 ^ 55, 3602879701896396 / 2 ^ 55)"
  by code_simp

text \<open>
  C9, amended: when the final balance is derived by the fallback and the subtraction
  credits - expenses is exact in double arithmetic, the debits equal the credits.
\<close>

theorem debits_equal_credits_exact:
  assumes "balanco_loop sf bl_init rows = Inr v" and "bl_saldo_final v = 0"
    and "balanco_rows sf rows = Inr out"
    and "fsub (total_creditos out) (total_despesas out) = total_creditos out - total_despesas out"
  shows "total_debitos out = total_creditos out"
proof -
  have out: "out = balanco_final v"
    using assms(1,3) by (simp add: balanco_rows_def)
  define c where "c = fadd (bl_saldo_anterior_total v) (bl_total_receitas v)"
  have c: "total_creditos out = c" and d: "total_despesas out = bl_total_despesas v"
    by (simp_all add: out balanco_final_def Let_def c_def)
  have "saldo_final out = fsub c (bl_total_despesas v)"
    using assms(2) by (simp add: out balanco_final_def Let_def c_def)
  then have "saldo_final out = c - bl_total_despesas v"
    using assms(4) by (simp add: c d)
  moreover have "total_debitos out = fadd (bl_total_despesas v) (saldo_final out)"
    by (simp add: out balanco_final_def Let_def)
  ultimately have "total_debitos out = rnd c"
    by (simp add: fadd_def)
  also have "\<dots> = c"
    by (simp add: c_def fadd_def rnd_idem)
  finally show ?thesis
    by (simp add: c)
qed

theorem debits_equal_credits_exact_witness:
  "balanco_loop float_of_digits bl_init sample_rows = Inr sample_bl \<and>
   bl_saldo_final sample_bl = 0 \<and>
   balanco_rows float_of_digits sample_rows = Inr (balanco_final sample_bl) \<and>
   fsub (total_creditos (balanco_final sample_bl)) (total_despesas (balanco_final sample_bl)) =
     total_creditos (balanco_final sample_bl) - total_despesas (balanco_final sample_bl) \<and>
   total_debitos (balanco_final sample_bl) = total_creditos (balanco_final sample_bl)"
proof -
  have b: "balanco_loop float_of_digits bl_init sample_rows = Inr sample_bl"
    by (rule balanco_loop_sample)
  have z: "bl_saldo_final sample_bl = 0"
    by (simp add: sample_bl_def)
  have r: "balanco_rows float_of_digits sample_rows = Inr (balanco_final sample_bl)"
    using b by (rule balanco_rows_loop)
  have e: "fsub (total_creditos (balanco_final sample_bl)) (total_despesas (balanco_final sample_bl)) =
     total_creditos (balanco_final sample_bl) - total_despesas (balanco_final sample_bl)"
    by (simp add: balanco_final_def sample_bl_def float_values)
  show ?thesis
    using b z r e debits_equal_credits_exact [OF b z r e] by simp
qed

subsection \<open>The detail list and the empty ledger\<close>

lemma index_loop_Cons:
  "index_loop sf v (linha # rest) = Inr v' \<longleftrightarrow>
   ledger_ok sf linha \<and>
   index_loop sf (ix_accumulate (index_classify (tipo_of linha) (conta_of linha))
                   (valor_of sf linha) v) rest = Inr v'"
proof (cases "ledger_ok sf linha")
  case True
  then show ?thesis by (simp add: index_body_ok)
next
  case False
  then have "isl (index_body sf v linha)"
    by (rule index_body_err)
  then obtain e where "index_body sf v linha = Inl e"
    by (cases "index_body sf v linha") simp_all
  with False show ?thesis by simp
qed

lemma balanco_loop_Cons:
  "balanco_loop sf v (linha # rest) = Inr v' \<longleftrightarrow>
   ledger_ok sf linha \<and>
   balanco_loop sf (bl_accumulate (balanco_classify (tipo_of linha) (conta_of linha))
                     (label_of linha ''conta'') (valor_of sf linha) v) rest = Inr v'"
proof (cases "ledger_ok sf linha")
  case True
  then show ?thesis by (simp add: balanco_body_ok)
next
  case False
  then have "isl (balanco_body sf v linha)"
    by (rule balanco_body_err)
  then obtain e where "balanco_body sf v linha = Inl e"
    by (cases "balanco_body sf v linha") simp_all
  with False show ?thesis by simp
qed

lemma balanco_classify_ExpenseItem:
  "balanco_classify tipo conta = ExpenseItem \<longleftrightarrow> tipo = ''DESPESA''"
  by (simp add: balanco_classify_def)

lemma bl_despesas_lista_accumulate:
  "bl_despesas_lista (bl_accumulate cat nome valor v) =
   (if cat = ExpenseItem then bl_despesas_lista v @ [(nome, valor)] else bl_despesas_lista v)"
  by (cases cat) (simp_all add: bl_accumulate_def)

lemma balanco_loop_despesas:
  "balanco_loop sf v rows = Inr v' \<Longrightarrow>
   bl_despesas_lista v' =
   bl_despesas_lista v @
   map (\<lambda>linha. (label_of linha ''conta'', valor_of sf linha))
     (filter (\<lambda>linha. tipo_of linha = ''DESPESA'') rows)"
proof (induction rows arbitrary: v)
  case Nil
  then show ?case by simp
next
  case (Cons linha rest)
  from Cons.prems have
    "balanco_loop sf (bl_accumulate (balanco_classify (tipo_of linha) (conta_of linha))
                       (label_of linha ''conta'') (valor_of sf linha) v) rest = Inr v'"
    by (simp only: balanco_loop_Cons)
  from Cons.IH [OF this] show ?case
    by (simp add: bl_despesas_lista_accumulate balanco_classify_ExpenseItem)
qed

text \<open>
  C8. The detail list of the balance sheet has one entry (label, amount) for every row of
  type DESPESA, in the order of the rows, with nothing merged: rows that repeat a label
  give entries that repeat it. The label is the stripped label in its own case.
\<close>

theorem detail_collector:
  assumes "balanco_rows sf rows = Inr out"
  shows "despesas out =
         map (\<lambda>linha. (label_of linha ''conta'', valor_of sf linha))
           (filter (\<lambda>linha. tipo_of linha = ''DESPESA'') rows)"
proof -
  from assms obtain v where v: "balanco_loop sf bl_init rows = Inr v" and out: "out = balanco_final v"
    by (rule balanco_rows_Inr)
  have "despesas out = bl_despesas_lista v"
    by (simp add: out balanco_final_def Let_def)
  also have "\<dots> = bl_despesas_lista bl_init @
      map (\<lambda>linha. (label_of linha ''conta'', valor_of sf linha))
        (filter (\<lambda>linha. tipo_of linha = ''DESPESA'') rows)"
    using v by (rule balanco_loop_despesas)
  finally show ?thesis
    by (simp add: bl_init_def)
qed

lemma sample_despesas:
  "map (\<lambda>linha. (label_of linha ''conta'', valor_of sf linha))
     (filter (\<lambda>linha. tipo_of linha = ''DESPESA'') sample_rows) = [(''Luz'', 10), (''Luz'', 20)]"
  by code_simp

theorem detail_collector_witness:
  "balanco_rows float_of_digits sample_rows = Inr (balanco_final sample_bl) \<and>
   despesas (balanco_final sample_bl) = [(''Luz'', 10), (''Luz'', 20)]"
proof -
  have r: "balanco_rows float_of_digits sample_rows = Inr (balanco_final sample_bl)"
    using balanco_loop_sample by (rule balanco_rows_loop)
  show ?thesis
    using r detail_collector [OF r] by (simp add: sample_despesas)
qed

lemma index_resumo_Nil:
  "index_resumo sf [] =
     \<lparr>resumo_total_receitas = ''0.00'', resumo_total_despesas = ''0.00'',
      resumo_saldo_anterior = ''0.00'', resumo_saldo_final = ''0.00''\<rparr>"
  by (simp add: index_resumo_def ix_init_def float_values fmt2_values)

lemma balanco_rows_Nil:
  "balanco_rows sf [] =
     Inr \<lparr>despesas = [], total_despesas = 0,
          saldo_anterior = \<lparr>deposito_poupanca = 0, deposito_ordem = 0, numerario_caixa = 0,
                             saldo_anterior_total = 0\<rparr>,
          receitas = \<lparr>quotas_normais = 0, quotas_extras = 0, juros = 0, receitas_total = 0\<rparr>,
          saldo_final = 0, total_debitos = 0, total_creditos = 0\<rparr>"
  by (simp add: balanco_rows_def balanco_final_def bl_init_def float_values)

lemma dashboard_rows_Nil:
  "dashboard_rows sf [] [] [] [] =
     \<lparr>rec_n_fracoes = [], rec_e_fracoes = [], despesas_mensais = replicate 12 0,
      dash_balanco = Some \<lparr>bd_saldo_anterior = 0, bd_total_receitas = 0, bd_total_despesas = 0,
                           bd_saldo_corrente = 0, bd_saldo_final = 0\<rparr>\<rparr>"
  by (simp add: dashboard_rows_def dashboard_try_def db_init_def float_values)

text \<open>
  C6. A table that cannot be read counts as the empty list of rows and no view raises;
  on the empty list the overview gives the summary whose four fields are \<^verbatim>\<open>0.00\<close>, the
  balance sheet gives zeros (each formatted as \<^verbatim>\<open>0.00\<close>) and the empty detail list, and the
  dashboard gives two empty dictionaries, twelve zeros for the expenses by month and a
  balance of zeros.
\<close>

theorem unavailable_source:
  "(src ''Balanco.dbf'' = None \<longrightarrow>
      index sf src = index_resumo sf [] \<and> balanco sf src = balanco_rows sf []) \<and>
   (src ''ReceitasN.dbf'' = None \<and> src ''ReceitasE.dbf'' = None \<and>
    src ''Despesas.dbf'' = None \<and> src ''Balanco.dbf'' = None \<longrightarrow>
      dashboard sf src = dashboard_rows sf [] [] [] []) \<and>
   index_resumo sf [] =
     \<lparr>resumo_total_receitas = ''0.00'', resumo_total_despesas = ''0.00'',
      resumo_saldo_anterior = ''0.00'', resumo_saldo_final = ''0.00''\<rparr> \<and>
   balanco_rows sf [] =
     Inr \<lparr>despesas = [], total_despesas = 0,
          saldo_anterior = \<lparr>deposito_poupanca = 0, deposito_ordem = 0, numerario_caixa = 0,
                             saldo_anterior_total = 0\<rparr>,
          receitas = \<lparr>quotas_normais = 0, quotas_extras = 0, juros = 0, receitas_total = 0\<rparr>,
          saldo_final = 0, total_debitos = 0, total_creditos = 0\<rparr> \<and>
   dashboard_rows sf [] [] [] [] =
     \<lparr>rec_n_fracoes = [], rec_e_fracoes = [], despesas_mensais = replicate 12 0,
      dash_balanco = Some \<lparr>bd_saldo_anterior = 0, bd_total_receitas = 0, bd_total_despesas = 0,
                           bd_saldo_corrente = 0, bd_saldo_final = 0\<rparr>\<rparr> \<and>
   fmt2 0 = ''0.00''"
  by (simp add: index_def balanco_def dashboard_def ler_dbf_def index_resumo_Nil balanco_rows_Nil
      dashboard_rows_Nil fmt2_values)

theorem unavailable_source_witness:
  "index float_of_digits (\<lambda>nome. None) =
     \<lparr>resumo_total_receitas = ''0.00'', resumo_total_despesas = ''0.00'',
      resumo_saldo_anterior = ''0.00'', resumo_saldo_final = ''0.00''\<rparr> \<and>
   balanco float_of_digits (\<lambda>nome. None) = balanco_rows float_of_digits [] \<and>
   dashboard float_of_digits (\<lambda>nome. None) = dashboard_rows float_of_digits [] [] [] []"
  using unavailable_source [of "\<lambda>nome. None" float_of_digits] by simp

subsection \<open>The order of the tests\<close>

text \<open>
  C2, as claimed: the rules are evaluated in the order of the rule table, TSA first and
  DESPESA eighth, so that a row of type DESPESA whose label contains TSA is a
  PreviousBalance and not an ExpenseItem. In the balance sheet, the one view with expense
  items, such a row is appended to the detail list and the previous balance stays 0.
\<close>

theorem tsa_despesa_counterexample:
  "map_sum id (\<lambda>out. (despesas out, saldo_anterior_total (saldo_anterior out)))
     (balanco_rows float_of_digits [tsa_despesa_row]) = Inr ([(''TSA'', 5)], 0)"
  by code_simp

text \<open>
  C2, amended: each view evaluates its own chain of tests in a fixed order, the first test
  that holds wins and the row is stored under that one category. In the balance sheet the
  type DESPESA is the first test: a row of type DESPESA is an ExpenseItem whatever its
  label, and a label with TSA gives PreviousBalance for the rows of any other type. In the
  overview and the dashboard, which have no expense items, a label with TSA is the first
  test and gives PreviousBalance for every type.
\<close>

theorem first_match_per_view:
  assumes "ledger_ok sf linha"
  shows "index_body sf vi linha =
           Inr (ix_accumulate (index_classify (tipo_of linha) (conta_of linha))
                  (valor_of sf linha) vi) \<and>
         dashboard_body sf vd linha =
           Inr (db_accumulate (dashboard_classify (tipo_of linha) (conta_of linha))
                  (valor_of sf linha) vd) \<and>
         balanco_body sf vb linha =
           Inr (bl_accumulate (balanco_classify (tipo_of linha) (conta_of linha))
                  (label_of linha ''conta'') (valor_of sf linha) vb) \<and>
         (tipo_of linha = ''DESPESA'' \<longrightarrow>
            balanco_classify (tipo_of linha) (conta_of linha) = ExpenseItem) \<and>
         (py_in ''TSA'' (conta_of linha) \<longrightarrow>
            index_classify (tipo_of linha) (conta_of linha) = PreviousBalance \<and>
            dashboard_classify (tipo_of linha) (conta_of linha) = PreviousBalance) \<and>
         (py_in ''TSA'' (conta_of linha) \<and> tipo_of linha \<noteq> ''DESPESA'' \<longrightarrow>
            balanco_classify (tipo_of linha) (conta_of linha) = PreviousBalance)"
  using assms
  by (simp add: index_body_ok dashboard_body_ok balanco_body_ok index_classify_def
      dashboard_classify_def balanco_classify_def)

lemma tsa_rows_fields:
  "ledger_ok sf tsa_despesa_row" "tipo_of tsa_despesa_row = ''DESPESA''"
  "conta_of tsa_despesa_row = ''TSA''" "label_of tsa_despesa_row ''conta'' = ''TSA''"
  "valor_of sf tsa_despesa_row = 5"
  "ledger_ok sf tsa_subtotal_row" "tipo_of tsa_subtotal_row = ''SUBTOTAL''"
  "conta_of tsa_subtotal_row = ''TSA''" "valor_of sf tsa_subtotal_row = 100"
  "py_in ''TSA'' ''TSA''"
  by code_simp+

theorem first_match_per_view_witness:
  "ledger_ok float_of_digits tsa_despesa_row \<and> tipo_of tsa_despesa_row = ''DESPESA'' \<and>
   py_in ''TSA'' (conta_of tsa_despesa_row) \<and>
   balanco_body float_of_digits bl_init tsa_despesa_row =
     Inr (bl_init\<lparr>bl_despesas_lista := [(''TSA'', 5)]\<rparr>) \<and>
   index_body float_of_digits ix_init tsa_despesa_row = Inr (ix_init\<lparr>ix_saldo_anterior := 5\<rparr>) \<and>
   dashboard_body float_of_digits db_init tsa_despesa_row = Inr (db_init\<lparr>db_saldo_anterior := 5\<rparr>) \<and>
   ledger_ok float_of_digits tsa_subtotal_row \<and> py_in ''TSA'' (conta_of tsa_subtotal_row) \<and>
   tipo_of tsa_subtotal_row \<noteq> ''DESPESA'' \<and>
   balanco_body float_of_digits bl_init tsa_subtotal_row =
     Inr (bl_init\<lparr>bl_saldo_anterior_total := 100\<rparr>)"
proof -
  have a: "ledger_ok float_of_digits tsa_despesa_row"
    and b: "ledger_ok float_of_digits tsa_subtotal_row"
    by (rule tsa_rows_fields)+
  note A = first_match_per_view [OF a, of ix_init db_init bl_init]
    and B = first_match_per_view [OF b, of ix_init db_init bl_init]
  show ?thesis
    using a b A B
    by (simp add: tsa_rows_fields ix_accumulate_def db_accumulate_def bl_accumulate_def
        bl_init_def)
qed

subsection \<open>Amounts that are not numbers\<close>

lemma index_loop_fails:
  assumes "linha \<in> set rows" and "\<not> ledger_ok sf linha"
  shows "isl (index_loop sf v rows)"
  using assms(1)
proof (induction rows arbitrary: v)
  case Nil
  then show ?case by simp
next
  case (Cons l rest)
  show ?case
  proof (cases "ledger_ok sf l")
    case True
    with assms(2) Cons.prems have "linha \<in> set rest"
      by auto
    then show ?thesis
      using True by (simp add: index_body_ok Cons.IH)
  next
    case False
    then have "isl (index_body sf v l)"
      by (rule index_body_err)
    then show ?thesis
      by (cases "index_body sf v l") simp_all
  qed
qed

lemma dashboard_loop_fails:
  assumes "linha \<in> set rows" and "\<not> ledger_ok sf linha"
  shows "isl (dashboard_loop sf v rows)"
  using assms(1)
proof (induction rows arbitrary: v)
  case Nil
  then show ?case by simp
next
  case (Cons l rest)
  show ?case
  proof (cases "ledger_ok sf l")
    case True
    with assms(2) Cons.prems have "linha \<in> set rest"
      by auto
    then show ?thesis
      using True by (simp add: dashboard_body_ok Cons.IH)
  next
    case False
    then have "isl (dashboard_body sf v l)"
      by (rule dashboard_body_err)
    then show ?thesis
      by (cases "dashboard_body sf v l") simp_all
  qed
qed

lemma dashboard_try_fails:
  assumes "isl (dashboard_loop sf db_init balanco_dbf)"
  shows "isl (dashboard_try sf rn re d balanco_dbf)"
  using assms
  by (auto simp: dashboard_try_def bind_err_def Let_def split: sum.splits)

text \<open>
  C3, as claimed: an amount that is absent, null or not a number is coerced to 0.0 and no
  error is raised or reaches the caller of a view. An amount that is the text \<^verbatim>\<open>abc\<close> raises
  ValueError in the normalization, and in the balance sheet the error reaches the caller.
\<close>

theorem text_amount_counterexample:
  "get_float float_of_digits text_amount_row ''valor'' = Inl ValueError \<and>
   balanco_rows float_of_digits [text_amount_row] = Inl ValueError"
  by code_simp

text \<open>
  C3, amended: an amount that is absent, null, the empty text or zero is coerced to 0.0 and
  raises nothing. A non-empty text that is not a number raises ValueError in the
  normalization; the overview and the dashboard catch it and give their default output as
  a whole (the summary of zeros, the empty dashboard).
\<close>

theorem amount_coercion:
  "(linha key = None \<or> linha key = Some PyNone \<or> linha key = Some (PyStr []) \<or>
    linha key = Some (PyNum 0) \<longrightarrow> get_float sf linha key = Inr 0) \<and>
   (linha key = Some (PyStr s) \<and> s \<noteq> [] \<and> sf s = None \<longrightarrow>
      get_float sf linha key = Inl ValueError) \<and>
   (linha \<in> set rows \<and> get_float sf linha ''valor'' = Inl ValueError \<longrightarrow>
      index_resumo sf rows =
        \<lparr>resumo_total_receitas = ''0.00'', resumo_total_despesas = ''0.00'',
         resumo_saldo_anterior = ''0.00'', resumo_saldo_final = ''0.00''\<rparr> \<and>
      dashboard_rows sf rn re d rows =
        \<lparr>rec_n_fracoes = [], rec_e_fracoes = [], despesas_mensais = [], dash_balanco = None\<rparr>)"
proof (intro conjI impI)
  assume "linha key = None \<or> linha key = Some PyNone \<or> linha key = Some (PyStr []) \<or>
    linha key = Some (PyNum 0)"
  then show "get_float sf linha key = Inr 0"
    by (auto simp: get_float_def rnd_def)
next
  assume "linha key = Some (PyStr s) \<and> s \<noteq> [] \<and> sf s = None"
  then show "get_float sf linha key = Inl ValueError"
    by (simp add: get_float_def)
next
  assume a: "linha \<in> set rows \<and> get_float sf linha ''valor'' = Inl ValueError"
  then have bad: "\<not> ledger_ok sf linha"
    by (simp add: ledger_ok_def)
  from a bad have "isl (index_loop sf ix_init rows)"
    by (intro index_loop_fails) simp_all
  then show "index_resumo sf rows =
        \<lparr>resumo_total_receitas = ''0.00'', resumo_total_despesas = ''0.00'',
         resumo_saldo_anterior = ''0.00'', resumo_saldo_final = ''0.00''\<rparr>"
    by (cases "index_loop sf ix_init rows") (simp_all add: index_resumo_def)
  from a bad have "isl (dashboard_loop sf db_init rows)"
    by (intro dashboard_loop_fails) simp_all
  then have "isl (dashboard_try sf rn re d rows)"
    by (rule dashboard_try_fails)
  then show "dashboard_rows sf rn re d rows =
        \<lparr>rec_n_fracoes = [], rec_e_fracoes = [], despesas_mensais = [], dash_balanco = None\<rparr>"
    by (cases "dashboard_try sf rn re d rows") (simp_all add: dashboard_rows_def)
qed

lemma amount_rows_fields:
  "null_amount_row ''valor'' = Some PyNone"
  "text_amount_row ''valor'' = Some (PyStr ''abc'')"
  "float_of_digits ''abc'' = None"
  by code_simp+

theorem amount_coercion_witness:
  "null_amount_row ''valor'' = Some PyNone \<and>
   get_float float_of_digits null_amount_row ''valor'' = Inr 0 \<and>
   text_amount_row ''valor'' = Some (PyStr ''abc'') \<and> float_of_digits ''abc'' = None \<and>
   get_float float_of_digits text_amount_row ''valor'' = Inl ValueError \<and>
   index_resumo float_of_digits [null_amount_row, text_amount_row] =
     \<lparr>resumo_total_receitas = ''0.00'', resumo_total_despesas = ''0.00'',
      resumo_saldo_anterior = ''0.00'', resumo_saldo_final = ''0.00''\<rparr> \<and>
   dashboard_rows float_of_digits [] [] [] [null_amount_row, text_amount_row] =
     \<lparr>rec_n_fracoes = [], rec_e_fracoes = [], despesas_mensais = [], dash_balanco = None\<rparr>"
proof -
  note A = amount_coercion [where linha = null_amount_row and key = "''valor''"
      and sf = float_of_digits]
  note B = amount_coercion [where linha = text_amount_row and key = "''valor''"
      and sf = float_of_digits and s = "''abc''"
      and rows = "[null_amount_row, text_amount_row]" and rn = "[]" and re = "[]" and d = "[]"]
  have 1: "get_float float_of_digits null_amount_row ''valor'' = Inr 0"
    using A by (simp add: amount_rows_fields)
  have 2: "get_float float_of_digits text_amount_row ''valor'' = Inl ValueError"
    using B by (simp add: amount_rows_fields)
  show ?thesis
    using 1 2 B by (simp add: amount_rows_fields)
qed

subsection \<open>Overwriting a slot\<close>

lemma index_loop_append:
  "index_loop sf v (xs @ ys) = Inr v' \<longleftrightarrow>
   (\<exists>v1. index_loop sf v xs = Inr v1 \<and> index_loop sf v1 ys = Inr v')"
proof (induction xs arbitrary: v)
  case Nil
  show ?case by simp
next
  case (Cons l xs)
  show ?case
    by (simp only: append_Cons index_loop_Cons Cons.IH) blast
qed

lemma ix_slot_accumulate_other:
  assumes "cat \<in> {PreviousBalance, TotalIncome, TotalExpense}" and "c \<noteq> cat"
  shows "ix_slot cat (ix_accumulate c x v) = ix_slot cat v"
  using assms by (cases c) (auto simp: ix_slot_def ix_accumulate_def)

lemma ix_slot_accumulate_same:
  assumes "cat \<in> {PreviousBalance, TotalIncome, TotalExpense}"
  shows "ix_slot cat (ix_accumulate cat x v) = x"
  using assms by (auto simp: ix_slot_def ix_accumulate_def)

lemma ix_saldo_final_accumulate:
  "ix_saldo_final (ix_accumulate c x v) =
   (if c = FinalBalance \<or> (c = FinalBalanceCandidate \<and> ix_saldo_final v = 0) then x
    else ix_saldo_final v)"
  by (cases c) (simp_all add: ix_accumulate_def)

lemma ix_slot_unchanged:
  assumes "cat \<in> {PreviousBalance, TotalIncome, TotalExpense}"
  shows "index_loop sf v rows = Inr v' \<Longrightarrow> \<forall>l\<in>set rows. ix_cat l \<noteq> cat \<Longrightarrow>
         ix_slot cat v' = ix_slot cat v"
proof (induction rows arbitrary: v)
  case Nil
  then show ?case by simp
next
  case (Cons l rest)
  from Cons.prems(1) have
    step: "index_loop sf (ix_accumulate (ix_cat l) (valor_of sf l) v) rest = Inr v'"
    unfolding index_loop_Cons ix_cat_def by simp
  from Cons.prems(2) have "ix_cat l \<noteq> cat" and rest: "\<forall>l\<in>set rest. ix_cat l \<noteq> cat"
    by simp_all
  from Cons.IH [OF step rest] show ?case
    using \<open>ix_cat l \<noteq> cat\<close> assms by (simp add: ix_slot_accumulate_other)
qed

lemma ix_saldo_final_stays_zero:
  "index_loop sf v rows = Inr v' \<Longrightarrow> ix_saldo_final v = 0 \<Longrightarrow>
   \<forall>l\<in>set rows. ix_cat l \<noteq> FinalBalance \<and>
     (ix_cat l = FinalBalanceCandidate \<longrightarrow> valor_of sf l = 0) \<Longrightarrow>
   ix_saldo_final v' = 0"
proof (induction rows arbitrary: v)
  case Nil
  then show ?case by simp
next
  case (Cons l rest)
  from Cons.prems(1) have
    step: "index_loop sf (ix_accumulate (ix_cat l) (valor_of sf l) v) rest = Inr v'"
    unfolding index_loop_Cons ix_cat_def by simp
  have "ix_saldo_final (ix_accumulate (ix_cat l) (valor_of sf l) v) = 0"
    using Cons.prems(2,3) by (simp add: ix_saldo_final_accumulate)
  from Cons.IH [OF step this] Cons.prems(3) show ?case
    by simp
qed

lemma ix_saldo_final_stays:
  "index_loop sf v rows = Inr v' \<Longrightarrow> ix_saldo_final v \<noteq> 0 \<Longrightarrow>
   \<forall>l\<in>set rows. ix_cat l \<noteq> FinalBalance \<Longrightarrow>
   ix_saldo_final v' = ix_saldo_final v"
proof (induction rows arbitrary: v)
  case Nil
  then show ?case by simp
next
  case (Cons l rest)
  from Cons.prems(1) have
    step: "index_loop sf (ix_accumulate (ix_cat l) (valor_of sf l) v) rest = Inr v'"
    unfolding index_loop_Cons ix_cat_def by simp
  have same: "ix_saldo_final (ix_accumulate (ix_cat l) (valor_of sf l) v) = ix_saldo_final v"
    using Cons.prems(2,3) by (simp add: ix_saldo_final_accumulate)
  with Cons.prems(2) have "ix_saldo_final (ix_accumulate (ix_cat l) (valor_of sf l) v) \<noteq> 0"
    by simp
  from Cons.IH [OF step this] Cons.prems(3) same show ?case
    by simp
qed

lemma fmt2_20: "fmt2 20 = ''20.00''"
  by (simp add: fmt2_def round_half_even_def digits10.simps digit_char_def)

lemma index_loop_generic:
  "index_loop sf ix_init generic_rows =
   Inr \<lparr>ix_total_receitas = 0, ix_total_despesas = 0, ix_saldo_anterior = 0, ix_saldo_final = 20\<rparr>"
  by code_simp

text \<open>
  C4, as claimed: a slot is overwritten, the later row survives, except that of the rows
  of the generic rule (type TOTAL, label TOTAL) the first survives when no other
  final-balance row is present. With two generic rows of 0 and 20 the second survives:
  the first leaves the final balance at 0.0, which reads as not set.
\<close>

theorem generic_total_counterexample:
  "index_resumo float_of_digits generic_rows =
     \<lparr>resumo_total_receitas = ''0.00'', resumo_total_despesas = ''0.00'',
      resumo_saldo_anterior = ''0.00'', resumo_saldo_final = ''20.00''\<rparr>"
  by (simp add: index_resumo_def index_loop_generic fmt2_values fmt2_20)

text \<open>
  C4, amended: in the overview the previous balance, the income and the expenses hold the
  amount of the last row of their category, and so does the final balance for a SALDO row
  with FINAL of a non-zero amount; of the rows of the generic rule the first with a
  non-zero amount survives when no SALDO row with FINAL is present (income rows of 50
  then 80 give 80; generic rows of 10 then 20 give 10).
\<close>

theorem slot_overwrite:
  assumes "index_loop sf ix_init (pre @ linha # post) = Inr v"
  shows "(cat \<in> {PreviousBalance, TotalIncome, TotalExpense} \<and> ix_cat linha = cat \<and>
          (\<forall>l\<in>set post. ix_cat l \<noteq> cat) \<longrightarrow> ix_slot cat v = valor_of sf linha) \<and>
         (ix_cat linha = FinalBalance \<and> valor_of sf linha \<noteq> 0 \<and>
          (\<forall>l\<in>set post. ix_cat l \<noteq> FinalBalance) \<longrightarrow> ix_saldo_final v = valor_of sf linha) \<and>
         (ix_cat linha = FinalBalanceCandidate \<and> valor_of sf linha \<noteq> 0 \<and>
          (\<forall>l\<in>set pre. ix_cat l \<noteq> FinalBalance \<and>
             (ix_cat l = FinalBalanceCandidate \<longrightarrow> valor_of sf l = 0)) \<and>
          (\<forall>l\<in>set post. ix_cat l \<noteq> FinalBalance) \<longrightarrow> ix_saldo_final v = valor_of sf linha)"
proof -
  from assms obtain v1 where
    pre: "index_loop sf ix_init pre = Inr v1" and
    rest: "index_loop sf v1 (linha # post) = Inr v"
    by (auto simp: index_loop_append)
  define v2 where "v2 = ix_accumulate (ix_cat linha) (valor_of sf linha) v1"
  from rest have post: "index_loop sf v2 post = Inr v"
    unfolding index_loop_Cons ix_cat_def v2_def by simp
  show ?thesis
  proof (intro conjI impI)
    assume a: "cat \<in> {PreviousBalance, TotalIncome, TotalExpense} \<and> ix_cat linha = cat \<and>
          (\<forall>l\<in>set post. ix_cat l \<noteq> cat)"
    then have a1: "cat \<in> {PreviousBalance, TotalIncome, TotalExpense}"
      and a3: "\<forall>l\<in>set post. ix_cat l \<noteq> cat"
      by blast+
    have "ix_slot cat v = ix_slot cat v2"
      using a1 post a3 by (rule ix_slot_unchanged)
    also have "\<dots> = valor_of sf linha"
      using a by (simp add: v2_def ix_slot_accumulate_same)
    finally show "ix_slot cat v = valor_of sf linha" .
  next
    assume a: "ix_cat linha = FinalBalance \<and> valor_of sf linha \<noteq> 0 \<and>
          (\<forall>l\<in>set post. ix_cat l \<noteq> FinalBalance)"
    then have 2: "ix_saldo_final v2 = valor_of sf linha"
      by (simp add: v2_def ix_saldo_final_accumulate)
    have "ix_saldo_final v = ix_saldo_final v2"
      using post by (rule ix_saldo_final_stays) (use a 2 in simp_all)
    with 2 show "ix_saldo_final v = valor_of sf linha"
      by simp
  next
    assume a: "ix_cat linha = FinalBalanceCandidate \<and> valor_of sf linha \<noteq> 0 \<and>
          (\<forall>l\<in>set pre. ix_cat l \<noteq> FinalBalance \<and>
             (ix_cat l = FinalBalanceCandidate \<longrightarrow> valor_of sf l = 0)) \<and>
          (\<forall>l\<in>set post. ix_cat l \<noteq> FinalBalance)"
    have "ix_saldo_final v1 = 0"
      using pre by (rule ix_saldo_final_stays_zero) (use a in \<open>simp_all add: ix_init_def\<close>)
    with a have 2: "ix_saldo_final v2 = valor_of sf linha"
      by (simp add: v2_def ix_saldo_final_accumulate)
    have "ix_saldo_final v = ix_saldo_final v2"
      using post by (rule ix_saldo_final_stays) (use a 2 in simp_all)
    with 2 show "ix_saldo_final v = valor_of sf linha"
      by simp
  qed
qed

lemma overwrite_rows_fields:
  "ix_cat income_row_50 = TotalIncome" "ix_cat income_row_80 = TotalIncome"
  "ix_cat generic_row_10 = FinalBalanceCandidate" "ix_cat generic_row_20 = FinalBalanceCandidate"
  "ix_cat saldo_final_row = FinalBalance"
  "valor_of sf income_row_80 = 80" "valor_of sf generic_row_10 = 10"
  "valor_of sf saldo_final_row = 5"
  by code_simp+

lemma index_loop_overwrite:
  "index_loop sf ix_init [income_row_50, income_row_80, generic_row_10, generic_row_20] =
   Inr \<lparr>ix_total_receitas = 80, ix_total_despesas = 0, ix_saldo_anterior = 0, ix_saldo_final = 10\<rparr>"
  "index_loop sf ix_init [saldo_final_row, generic_row_20] = Inr (ix_init\<lparr>ix_saldo_final := 5\<rparr>)"
  by code_simp+

theorem slot_overwrite_witness:
  "index_loop float_of_digits ix_init [income_row_50, income_row_80, generic_row_10, generic_row_20] =
     Inr \<lparr>ix_total_receitas = 80, ix_total_despesas = 0, ix_saldo_anterior = 0, ix_saldo_final = 10\<rparr> \<and>
   ix_cat income_row_50 = TotalIncome \<and> ix_cat income_row_80 = TotalIncome \<and>
   ix_cat generic_row_10 = FinalBalanceCandidate \<and> ix_cat generic_row_20 = FinalBalanceCandidate \<and>
   ix_slot TotalIncome \<lparr>ix_total_receitas = 80, ix_total_despesas = 0, ix_saldo_anterior = 0,
     ix_saldo_final = 10\<rparr> = valor_of float_of_digits income_row_80 \<and>
   valor_of float_of_digits income_row_80 = 80 \<and>
   ix_saldo_final \<lparr>ix_total_receitas = 80, ix_total_despesas = 0, ix_saldo_anterior = 0,
     ix_saldo_final = 10\<rparr> = valor_of float_of_digits generic_row_10 \<and>
   valor_of float_of_digits generic_row_10 = 10 \<and>
   index_loop float_of_digits ix_init [saldo_final_row, generic_row_20] =
     Inr (ix_init\<lparr>ix_saldo_final := 5\<rparr>) \<and>
   ix_cat saldo_final_row = FinalBalance \<and>
   ix_saldo_final (ix_init\<lparr>ix_saldo_final := 5\<rparr>) = valor_of float_of_digits saldo_final_row"
proof -
  have l: "index_loop float_of_digits ix_init ([income_row_50] @ income_row_80 # [generic_row_10, generic_row_20]) =
     Inr \<lparr>ix_total_receitas = 80, ix_total_despesas = 0, ix_saldo_anterior = 0, ix_saldo_final = 10\<rparr>"
    and m: "index_loop float_of_digits ix_init ([income_row_50, income_row_80] @ generic_row_10 # [generic_row_20]) =
     Inr \<lparr>ix_total_receitas = 80, ix_total_despesas = 0, ix_saldo_anterior = 0, ix_saldo_final = 10\<rparr>"
    and n: "index_loop float_of_digits ix_init ([] @ saldo_final_row # [generic_row_20]) =
     Inr (ix_init\<lparr>ix_saldo_final := 5\<rparr>)"
    by (simp_all only: append.simps index_loop_overwrite)
  note A = slot_overwrite [OF l, of TotalIncome]
    and B = slot_overwrite [OF m]
    and C = slot_overwrite [OF n]
  have 1: "ix_slot TotalIncome \<lparr>ix_total_receitas = 80, ix_total_despesas = 0, ix_saldo_anterior = 0,
     ix_saldo_final = 10\<rparr> = valor_of float_of_digits income_row_80"
    using A by (simp add: overwrite_rows_fields)
  have 2: "ix_saldo_final \<lparr>ix_total_receitas = 80, ix_total_despesas = 0, ix_saldo_anterior = 0,
     ix_saldo_final = 10\<rparr> = valor_of float_of_digits generic_row_10"
    using B by (simp add: overwrite_rows_fields)
  have 3: "ix_saldo_final (ix_init\<lparr>ix_saldo_final := 5\<rparr>) = valor_of float_of_digits saldo_final_row"
    using C by (simp add: overwrite_rows_fields)
  show ?thesis
    by (intro conjI; (rule index_loop_overwrite overwrite_rows_fields 1 2 3))
qed

subsection \<open>The tables by month\<close>

lemma floats_of_Inr:
  "floats_of sf linha ms = Inr xs \<Longrightarrow> xs = map (amount_of sf linha) ms"
proof (induction ms arbitrary: xs)
  case Nil
  then show ?case by simp
next
  case (Cons m ms)
  from Cons.prems obtain x ys where
    x: "get_float sf linha m = Inr x" and ys: "floats_of sf linha ms = Inr ys" and xs: "xs = x # ys"
    by (auto simp: bind_err_def split: sum.splits)
  from Cons.IH [OF ys] x xs show ?case
    by (simp add: amount_of_def)
qed

lemma year_of_meses: "map (amount_of sf linha) meses = year_of sf linha"
  by (simp add: meses_def year_of_def)

lemma floats_of_year:
  "floats_of sf linha meses = Inr xs \<Longrightarrow> xs = year_of sf linha"
  using floats_of_Inr [of sf linha meses xs] by (simp only: year_of_meses)

lemma floats_of_fails:
  "mes \<in> set ms \<Longrightarrow> isl (get_float sf linha mes) \<Longrightarrow> isl (floats_of sf linha ms)"
proof (induction ms)
  case Nil
  then show ?case by simp
next
  case (Cons m ms)
  show ?case
  proof (cases "get_float sf linha m")
    case (Inl e)
    then show ?thesis by simp
  next
    case (Inr x)
    with Cons.prems have "mes \<in> set ms"
      by auto
    from Cons.IH [OF this Cons.prems(2)] Inr show ?thesis
      by (cases "floats_of sf linha ms") simp_all
  qed
qed

lemma text_month_fails:
  assumes "mes \<in> set meses" and "linha mes = Some (PyStr s)" and "s \<noteq> []" and "sf s = None"
  shows "isl (floats_of sf linha meses)"
proof -
  have "isl (get_float sf linha mes)"
    using assms(2-4) by (simp add: get_float_def)
  with assms(1) show ?thesis
    by (rule floats_of_fails)
qed

lemma entity_row_strip:
  assumes "get_strip l ''fraccao'' = Inr f"
  shows "entity_row l \<longleftrightarrow> f \<noteq> [] \<and> py_upper f \<noteq> ''TOTAIS''"
  using assms by (simp add: entity_row_def fracao_of_def label_of_def)

lemma entity_row_readable:
  assumes "entity_row l"
  obtains f where "get_strip l ''fraccao'' = Inr f"
  using assms
  by (cases "get_strip l ''fraccao''") (simp_all add: entity_row_def fracao_of_def label_of_def)

lemma fracoes_loop_skip:
  assumes "get_strip l ''fraccao'' = Inr f" and "\<not> entity_row l"
  shows "fracoes_loop sf d (l # rest) = fracoes_loop sf d rest"
  using assms by (auto simp: entity_row_strip)

lemma fracoes_loop_entity:
  assumes "get_strip l ''fraccao'' = Inr f" and "entity_row l"
  shows "fracoes_loop sf d (l # rest) =
         bind_err (floats_of sf l meses) (\<lambda>xs. fracoes_loop sf (AList.update f xs d) rest)"
  using assms by (auto simp: entity_row_strip)

lemma totais_row_strip:
  assumes "get_strip l ''despesas'' = Inr x"
  shows "totais_row l \<longleftrightarrow> py_upper x = ''TOTAIS''"
  using assms by (simp add: totais_row_def label_of_def)

lemma totais_row_readable:
  assumes "totais_row l"
  obtains x where "get_strip l ''despesas'' = Inr x"
  using assms
  by (cases "get_strip l ''despesas''") (simp_all add: totais_row_def label_of_def py_upper_def)

lemma despesas_loop_skip:
  assumes "get_strip l ''despesas'' = Inr x" and "\<not> totais_row l"
  shows "despesas_loop sf (l # rest) = despesas_loop sf rest"
  using assms by (auto simp: totais_row_strip)

lemma despesas_loop_totais:
  assumes "totais_row l"
  shows "despesas_loop sf (l # rest) = floats_of sf l meses"
proof -
  from assms obtain x where x: "get_strip l ''despesas'' = Inr x"
    by (rule totais_row_readable)
  with assms show ?thesis
    by (auto simp: totais_row_strip)
qed

lemma fracoes_loop_fails:
  assumes "l \<in> set rows" and "entity_row l" and "isl (floats_of sf l meses)"
  shows "isl (fracoes_loop sf d rows)"
  using assms(1)
proof (induction rows arbitrary: d)
  case Nil
  then show ?case by simp
next
  case (Cons r rest)
  show ?case
  proof (cases "get_strip r ''fraccao''")
    case (Inl e)
    then show ?thesis by simp
  next
    case f: (Inr f)
    show ?thesis
    proof (cases "entity_row r")
      case True
      note step = fracoes_loop_entity [OF f True]
      show ?thesis
      proof (cases "floats_of sf r meses")
        case (Inl e)
        then show ?thesis by (simp only: step bind_err_simps sum.disc)
      next
        case (Inr xs)
        with assms(3) have "l \<noteq> r" by auto
        with Cons.prems have "l \<in> set rest" by simp
        from Cons.IH [OF this] show ?thesis
          by (simp only: step Inr bind_err_simps)
      qed
    next
      case False
      with assms(2) have "l \<noteq> r" by auto
      with Cons.prems have "l \<in> set rest" by simp
      from Cons.IH [OF this] show ?thesis
        by (simp only: fracoes_loop_skip [OF f False])
    qed
  qed
qed

lemma despesas_loop_fails:
  "find totais_row rows = Some l \<Longrightarrow> isl (floats_of sf l meses) \<Longrightarrow>
   isl (despesas_loop sf rows)"
proof (induction rows)
  case Nil
  then show ?case by simp
next
  case (Cons r rest)
  show ?case
  proof (cases "get_strip r ''despesas''")
    case (Inl e)
    then show ?thesis by simp
  next
    case x: (Inr x)
    show ?thesis
    proof (cases "totais_row r")
      case True
      with Cons.prems have "l = r" by simp
      with Cons.prems(2) show ?thesis
        by (simp only: despesas_loop_totais [OF True])
    next
      case False
      with Cons.prems have "find totais_row rest = Some l" by simp
      from Cons.IH [OF this Cons.prems(2)] show ?thesis
        by (simp only: despesas_loop_skip [OF x False])
    qed
  qed
qed

lemma dashboard_rows_default:
  assumes "isl (fracoes_loop sf [] rn) \<or> isl (fracoes_loop sf [] re) \<or> isl (despesas_loop sf dsp)"
  shows "dashboard_rows sf rn re dsp bal = dashboard_default"
proof -
  have "isl (dashboard_try sf rn re dsp bal)"
    using assms by (auto simp: dashboard_try_def bind_err_def Let_def split: sum.splits)
  then show ?thesis
    by (cases "dashboard_try sf rn re dsp bal")
      (simp_all add: dashboard_rows_def dashboard_default_def)
qed

lemma fracoes_loop_map:
  "fracoes_loop sf d rows = Inr d' \<Longrightarrow>
   map_of d' =
   map_of (rev (map (\<lambda>l. (fracao_of l, year_of sf l)) (filter entity_row rows)) @ d)"
proof (induction rows arbitrary: d)
  case Nil
  then show ?case by simp
next
  case (Cons l rest)
  from Cons.prems obtain f where f: "get_strip l ''fraccao'' = Inr f"
    by (cases "get_strip l ''fraccao''") simp_all
  then have fl: "fracao_of l = f"
    by (simp add: fracao_of_def label_of_def)
  show ?case
  proof (cases "entity_row l")
    case True
    from Cons.prems obtain xs where
      xs: "floats_of sf l meses = Inr xs" and
      rest: "fracoes_loop sf (AList.update f xs d) rest = Inr d'"
      unfolding fracoes_loop_entity [OF f True]
      by (cases "floats_of sf l meses") simp_all
    have "xs = year_of sf l"
      using xs by (rule floats_of_year)
    with Cons.IH [OF rest] True fl show ?thesis
      by (simp add: update_conv' map_add_upd_left)
  next
    case False
    from Cons.prems have "fracoes_loop sf d rest = Inr d'"
      by (simp only: fracoes_loop_skip [OF f False])
    from Cons.IH [OF this] False show ?thesis
      by simp
  qed
qed

lemma despesas_loop_find:
  "despesas_loop sf rows = Inr dm \<Longrightarrow>
   dm = (case find totais_row rows of None \<Rightarrow> [] | Some l \<Rightarrow> year_of sf l)"
proof (induction rows)
  case Nil
  then show ?case by simp
next
  case (Cons l rest)
  from Cons.prems obtain d where d: "get_strip l ''despesas'' = Inr d"
    by (cases "get_strip l ''despesas''") simp_all
  show ?case
  proof (cases "totais_row l")
    case True
    from Cons.prems have "floats_of sf l meses = Inr dm"
      by (simp only: despesas_loop_totais [OF True])
    then have "dm = year_of sf l"
      by (rule floats_of_year)
    with True show ?thesis by simp
  next
    case False
    from Cons.prems have "despesas_loop sf rest = Inr dm"
      by (simp only: despesas_loop_skip [OF d False])
    from Cons.IH [OF this] False show ?thesis by simp
  qed
qed

lemma entity_keys:
  assumes "k = [] \<or> py_upper k = ''TOTAIS''"
  shows "map_of (rev (map (\<lambda>l. (fracao_of l, f l)) (filter entity_row rows))) k = None"
proof -
  have "k \<notin> fst ` set (rev (map (\<lambda>l. (fracao_of l, f l)) (filter entity_row rows)))"
    using assms by (auto simp: entity_row_def)
  then show ?thesis
    by (rule map_of_eq_None_iff [THEN iffD2])
qed

lemma monthly_series_ok:
  assumes "dashboard_try sf rn re dsp bal = Inr out"
  shows "dashboard_rows sf rn re dsp bal = out \<and>
         map_of (rec_n_fracoes out) =
           map_of (rev (map (\<lambda>l. (fracao_of l, year_of sf l)) (filter entity_row rn))) \<and>
         map_of (rec_e_fracoes out) =
           map_of (rev (map (\<lambda>l. (fracao_of l, year_of sf l)) (filter entity_row re))) \<and>
         (\<forall>k. k = [] \<or> py_upper k = ''TOTAIS'' \<longrightarrow>
            map_of (rec_n_fracoes out) k = None \<and> map_of (rec_e_fracoes out) k = None) \<and>
         despesas_mensais out =
           (case find totais_row dsp of None \<Rightarrow> replicate 12 0 | Some l \<Rightarrow> year_of sf l) \<and>
         length (despesas_mensais out) = 12"
proof -
  from assms obtain n e dm v where
    n: "fracoes_loop sf [] rn = Inr n" and e: "fracoes_loop sf [] re = Inr e" and
    dm: "despesas_loop sf dsp = Inr dm" and v: "dashboard_loop sf db_init bal = Inr v" and
    out: "rec_n_fracoes out = n" "rec_e_fracoes out = e"
      "despesas_mensais out = (if dm = [] then replicate 12 0 else dm)"
    by (auto simp: dashboard_try_def bind_err_def Let_def split: sum.splits)
  have 1: "dashboard_rows sf rn re dsp bal = out"
    using assms by (simp add: dashboard_rows_def)
  have 2: "map_of (rec_n_fracoes out) =
      map_of (rev (map (\<lambda>l. (fracao_of l, year_of sf l)) (filter entity_row rn)))"
    using fracoes_loop_map [OF n] by (simp add: out)
  have 3: "map_of (rec_e_fracoes out) =
      map_of (rev (map (\<lambda>l. (fracao_of l, year_of sf l)) (filter entity_row re)))"
    using fracoes_loop_map [OF e] by (simp add: out)
  have 4: "\<forall>k. k = [] \<or> py_upper k = ''TOTAIS'' \<longrightarrow>
      map_of (rec_n_fracoes out) k = None \<and> map_of (rec_e_fracoes out) k = None"
    unfolding 2 3 by (intro allI impI conjI entity_keys)
  have 5: "despesas_mensais out =
      (case find totais_row dsp of None \<Rightarrow> replicate 12 0 | Some l \<Rightarrow> year_of sf l)"
    using despesas_loop_find [OF dm] by (simp add: out year_of_def split: option.splits)
  have 6: "length (despesas_mensais out) = 12"
    unfolding 5 by (simp add: year_of_def split: option.splits)
  from 1 2 3 4 5 6 show ?thesis
    by (intro conjI)
qed

text \<open>
  C7, as claimed: every entity row is mapped to its twelve values, a value that is missing
  or not a number read as 0.0, and the expense series has twelve values. A row A whose
  January is the text \<^verbatim>\<open>abc\<close> makes the dashboard give its default output: no entry for A
  and an empty expense series.
\<close>

theorem month_text_counterexample:
  "dashboard_rows float_of_digits [row_a_text] [] [] [] =
     \<lparr>rec_n_fracoes = [], rec_e_fracoes = [], despesas_mensais = [], dash_balanco = None\<rparr>"
  by code_simp

text \<open>
  C7, amended: when no field read raises, each of the two dictionaries maps the stripped
  label of every row whose label is not empty and not TOTAIS in upper case to the twelve
  values of the last row with that label, read in the order jan, fev, mar, abr, mai, jun,
  jul, ago, set, out, nov, dez, an absent or null value as 0.0; no key is empty or TOTAIS
  in upper case; the expense series is the twelve values of the first row of the expense
  table labelled TOTAIS, and twelve zeros when there is none. A month that is a non-empty
  text and not a number, in an entity row of either table of receipts or in the first row
  labelled TOTAIS of the expense table, raises and the dashboard gives its default output
  (empty dictionaries, empty series, empty balance). The months of the other rows are not
  read: a row of receipts with an empty or TOTAIS label and an expense row with another
  label are skipped, and the expense loop stops at the first row labelled TOTAIS.
\<close>

theorem monthly_series:
  "(dashboard_try sf rn re dsp bal = Inr out \<longrightarrow>
      dashboard_rows sf rn re dsp bal = out \<and>
      map_of (rec_n_fracoes out) =
        map_of (rev (map (\<lambda>l. (fracao_of l, year_of sf l)) (filter entity_row rn))) \<and>
      map_of (rec_e_fracoes out) =
        map_of (rev (map (\<lambda>l. (fracao_of l, year_of sf l)) (filter entity_row re))) \<and>
      (\<forall>k. k = [] \<or> py_upper k = ''TOTAIS'' \<longrightarrow>
         map_of (rec_n_fracoes out) k = None \<and> map_of (rec_e_fracoes out) k = None) \<and>
      despesas_mensais out =
        (case find totais_row dsp of None \<Rightarrow> replicate 12 0 | Some l \<Rightarrow> year_of sf l) \<and>
      length (despesas_mensais out) = 12) \<and>
   (floats_of sf linha meses = Inr xs \<longrightarrow>
      xs = [amount_of sf linha ''jan'', amount_of sf linha ''fev'', amount_of sf linha ''mar'',
            amount_of sf linha ''abr'', amount_of sf linha ''mai'', amount_of sf linha ''jun'',
            amount_of sf linha ''jul'', amount_of sf linha ''ago'', amount_of sf linha ''set'',
            amount_of sf linha ''out'', amount_of sf linha ''nov'', amount_of sf linha ''dez''] \<and>
      xs = year_of sf linha) \<and>
   (linha key = None \<or> linha key = Some PyNone \<longrightarrow> amount_of sf linha key = 0) \<and>
   ((linha \<in> set rn \<or> linha \<in> set re) \<and> entity_row linha \<and> mes \<in> set meses \<and>
    linha mes = Some (PyStr s) \<and> s \<noteq> [] \<and> sf s = None \<longrightarrow>
      dashboard_rows sf rn re dsp bal = dashboard_default) \<and>
   (find totais_row dsp = Some linha \<and> mes \<in> set meses \<and>
    linha mes = Some (PyStr s) \<and> s \<noteq> [] \<and> sf s = None \<longrightarrow>
      dashboard_rows sf rn re dsp bal = dashboard_default) \<and>
   (get_strip linha ''fraccao'' = Inr f \<and> \<not> entity_row linha \<longrightarrow>
      fracoes_loop sf d (linha # rest) = fracoes_loop sf d rest) \<and>
   (get_strip linha ''despesas'' = Inr f \<and> \<not> totais_row linha \<longrightarrow>
      despesas_loop sf (linha # rest) = despesas_loop sf rest) \<and>
   (totais_row linha \<longrightarrow> despesas_loop sf (linha # rest) = floats_of sf linha meses)"
proof (intro conjI impI)
  assume "dashboard_try sf rn re dsp bal = Inr out"
  note M = monthly_series_ok [OF this]
  show "dashboard_rows sf rn re dsp bal = out"
    using M by (rule conjunct1)
  show "map_of (rec_n_fracoes out) =
        map_of (rev (map (\<lambda>l. (fracao_of l, year_of sf l)) (filter entity_row rn)))"
    using M [THEN conjunct2] by (rule conjunct1)
  show "map_of (rec_e_fracoes out) =
        map_of (rev (map (\<lambda>l. (fracao_of l, year_of sf l)) (filter entity_row re)))"
    using M [THEN conjunct2, THEN conjunct2] by (rule conjunct1)
  show "\<forall>k. k = [] \<or> py_upper k = ''TOTAIS'' \<longrightarrow>
         map_of (rec_n_fracoes out) k = None \<and> map_of (rec_e_fracoes out) k = None"
    using M [THEN conjunct2, THEN conjunct2, THEN conjunct2] by (rule conjunct1)
  show "despesas_mensais out =
        (case find totais_row dsp of None \<Rightarrow> replicate 12 0 | Some l \<Rightarrow> year_of sf l)"
    using M [THEN conjunct2, THEN conjunct2, THEN conjunct2, THEN conjunct2] by (rule conjunct1)
  show "length (despesas_mensais out) = 12"
    using M [THEN conjunct2, THEN conjunct2, THEN conjunct2, THEN conjunct2] by (rule conjunct2)
next
  assume a: "floats_of sf linha meses = Inr xs"
  then show "xs = year_of sf linha"
    by (rule floats_of_year)
  then show "xs = [amount_of sf linha ''jan'', amount_of sf linha ''fev'', amount_of sf linha ''mar'',
            amount_of sf linha ''abr'', amount_of sf linha ''mai'', amount_of sf linha ''jun'',
            amount_of sf linha ''jul'', amount_of sf linha ''ago'', amount_of sf linha ''set'',
            amount_of sf linha ''out'', amount_of sf linha ''nov'', amount_of sf linha ''dez'']"
    by (simp only: year_of_def)
next
  assume "linha key = None \<or> linha key = Some PyNone"
  then show "amount_of sf linha key = 0"
    by (auto simp: amount_of_def get_float_def rnd_def)
next
  assume a: "(linha \<in> set rn \<or> linha \<in> set re) \<and> entity_row linha \<and> mes \<in> set meses \<and>
    linha mes = Some (PyStr s) \<and> s \<noteq> [] \<and> sf s = None"
  then have "mes \<in> set meses" and "linha mes = Some (PyStr s)" and "s \<noteq> []" and "sf s = None"
    by simp_all
  then have bad: "isl (floats_of sf linha meses)"
    by (rule text_month_fails)
  from a have e: "entity_row linha" and "linha \<in> set rn \<or> linha \<in> set re"
    by simp_all
  then have "isl (fracoes_loop sf [] rn) \<or> isl (fracoes_loop sf [] re)"
    using fracoes_loop_fails [OF _ e bad] by blast
  then show "dashboard_rows sf rn re dsp bal = dashboard_default"
    by (intro dashboard_rows_default) auto
next
  assume a: "find totais_row dsp = Some linha \<and> mes \<in> set meses \<and>
    linha mes = Some (PyStr s) \<and> s \<noteq> [] \<and> sf s = None"
  then have "mes \<in> set meses" and "linha mes = Some (PyStr s)" and "s \<noteq> []" and "sf s = None"
    by simp_all
  then have bad: "isl (floats_of sf linha meses)"
    by (rule text_month_fails)
  from a have "find totais_row dsp = Some linha"
    by simp
  then have "isl (despesas_loop sf dsp)"
    using bad by (rule despesas_loop_fails)
  then show "dashboard_rows sf rn re dsp bal = dashboard_default"
    by (intro dashboard_rows_default) auto
next
  assume "get_strip linha ''fraccao'' = Inr f \<and> \<not> entity_row linha"
  then have "get_strip linha ''fraccao'' = Inr f" and "\<not> entity_row linha"
    by simp_all
  then show "fracoes_loop sf d (linha # rest) = fracoes_loop sf d rest"
    by (rule fracoes_loop_skip)
next
  assume "get_strip linha ''despesas'' = Inr f \<and> \<not> totais_row linha"
  then have "get_strip linha ''despesas'' = Inr f" and "\<not> totais_row linha"
    by simp_all
  then show "despesas_loop sf (linha # rest) = despesas_loop sf rest"
    by (rule despesas_loop_skip)
next
  assume "totais_row linha"
  then show "despesas_loop sf (linha # rest) = floats_of sf linha meses"
    by (rule despesas_loop_totais)
qed

lemma dashboard_try_months:
  "dashboard_try sf receitas_n_rows [] despesas_rows [] = Inr month_out"
  by code_simp

lemma months_fields:
  "map (\<lambda>l. (fracao_of l, year_of sf l)) (filter entity_row receitas_n_rows) =
     [(''A'', [1, 2, 0, 0, 0, 0, 0, 0, 0, 0, 0, 12]), (''A'', [0, 0, 3, 0, 0, 0, 0, 0, 0, 0, 11, 0])]"
  "map_option (year_of sf) (find totais_row despesas_rows) =
     Some [7, 0, 0, 0, 0, 0, 0, 0, 0, 10, 0, 0]"
  "py_upper ''Totais'' = ''TOTAIS''"
  "floats_of sf row_a_first meses = Inr [1, 2, 0, 0, 0, 0, 0, 0, 0, 0, 0, 12]"
  "row_a_first ''mar'' = None"
  "entity_row row_a_text" "row_a_text ''jan'' = Some (PyStr ''abc'')"
  "float_of_digits ''abc'' = None" "''jan'' \<in> set meses" "''fev'' \<in> set meses"
  "\<not> totais_row desp_luz_text" "totais_row desp_totais_text" "totais_row desp_totais"
  "desp_totais_text ''fev'' = Some (PyStr ''abc'')"
  "get_strip row_totais_text ''fraccao'' = Inr ''Totais''" "\<not> entity_row row_totais_text"
  "get_strip desp_luz_text ''despesas'' = Inr ''Luz''"
  by code_simp+

theorem monthly_series_witness:
  "dashboard_try float_of_digits receitas_n_rows [] despesas_rows [] = Inr month_out \<and>
   dashboard_rows float_of_digits receitas_n_rows [] despesas_rows [] = month_out \<and>
   map_of (rec_n_fracoes month_out) =
     map_of (rev (map (\<lambda>l. (fracao_of l, year_of float_of_digits l))
                    (filter entity_row receitas_n_rows))) \<and>
   map (\<lambda>l. (fracao_of l, year_of float_of_digits l)) (filter entity_row receitas_n_rows) =
     [(''A'', [1, 2, 0, 0, 0, 0, 0, 0, 0, 0, 0, 12]), (''A'', [0, 0, 3, 0, 0, 0, 0, 0, 0, 0, 11, 0])] \<and>
   rec_n_fracoes month_out = [(''A'', [0, 0, 3, 0, 0, 0, 0, 0, 0, 0, 11, 0])] \<and>
   py_upper ''Totais'' = ''TOTAIS'' \<and> map_of (rec_n_fracoes month_out) ''Totais'' = None \<and>
   map_option (year_of float_of_digits) (find totais_row despesas_rows) =
     Some [7, 0, 0, 0, 0, 0, 0, 0, 0, 10, 0, 0] \<and>
   despesas_mensais month_out = [7, 0, 0, 0, 0, 0, 0, 0, 0, 10, 0, 0] \<and>
   length (despesas_mensais month_out) = 12 \<and>
   floats_of float_of_digits row_a_first meses = Inr [1, 2, 0, 0, 0, 0, 0, 0, 0, 0, 0, 12] \<and>
   [1, 2, 0, 0, 0, 0, 0, 0, 0, 0, 0, 12] =
     [amount_of float_of_digits row_a_first ''jan'', amount_of float_of_digits row_a_first ''fev'',
      amount_of float_of_digits row_a_first ''mar'', amount_of float_of_digits row_a_first ''abr'',
      amount_of float_of_digits row_a_first ''mai'', amount_of float_of_digits row_a_first ''jun'',
      amount_of float_of_digits row_a_first ''jul'', amount_of float_of_digits row_a_first ''ago'',
      amount_of float_of_digits row_a_first ''set'', amount_of float_of_digits row_a_first ''out'',
      amount_of float_of_digits row_a_first ''nov'', amount_of float_of_digits row_a_first ''dez''] \<and>
   row_a_first ''mar'' = None \<and> amount_of float_of_digits row_a_first ''mar'' = 0 \<and>
   entity_row row_a_text \<and> ''jan'' \<in> set meses \<and> row_a_text ''jan'' = Some (PyStr ''abc'') \<and>
   float_of_digits ''abc'' = None \<and>
   dashboard_rows float_of_digits [row_a_text] [] [] [] = dashboard_default \<and>
   find totais_row [desp_luz_text, desp_totais_text] = Some desp_totais_text \<and>
   ''fev'' \<in> set meses \<and> desp_totais_text ''fev'' = Some (PyStr ''abc'') \<and>
   dashboard_rows float_of_digits [] [] [desp_luz_text, desp_totais_text] [] = dashboard_default \<and>
   get_strip row_totais_text ''fraccao'' = Inr ''Totais'' \<and> \<not> entity_row row_totais_text \<and>
   fracoes_loop float_of_digits [] [row_totais_text, row_a_last] =
     fracoes_loop float_of_digits [] [row_a_last] \<and>
   get_strip desp_luz_text ''despesas'' = Inr ''Luz'' \<and> \<not> totais_row desp_luz_text \<and>
   despesas_loop float_of_digits [desp_luz_text, desp_totais] =
     despesas_loop float_of_digits [desp_totais] \<and>
   totais_row desp_totais \<and>
   despesas_loop float_of_digits [desp_totais, desp_totais_text] =
     floats_of float_of_digits desp_totais meses"
proof -
  have h: "dashboard_try float_of_digits receitas_n_rows [] despesas_rows [] = Inr month_out"
    by (rule dashboard_try_months)
  note M = monthly_series [where sf = float_of_digits and rn = receitas_n_rows and re = "[]"
      and dsp = despesas_rows and bal = "[]" and out = month_out, THEN conjunct1, rule_format, OF h]
  note 1 = M [THEN conjunct1]
  note 2 = M [THEN conjunct2, THEN conjunct1]
  note K = M [THEN conjunct2, THEN conjunct2, THEN conjunct2, THEN conjunct1]
  note 6 = M [THEN conjunct2, THEN conjunct2, THEN conjunct2, THEN conjunct2, THEN conjunct2]
  have 3: "map_of (rec_n_fracoes month_out) ''Totais'' = None"
    using K [THEN spec, of "''Totais''"] by (simp add: months_fields)
  have 4: "despesas_mensais month_out = [7, 0, 0, 0, 0, 0, 0, 0, 0, 10, 0, 0]"
    and 5: "rec_n_fracoes month_out = [(''A'', [0, 0, 3, 0, 0, 0, 0, 0, 0, 0, 11, 0])]"
    by (simp_all add: month_out_def)
  have f: "floats_of float_of_digits row_a_first meses = Inr [1, 2, 0, 0, 0, 0, 0, 0, 0, 0, 0, 12]"
    by (rule months_fields)
  note 7 = monthly_series [where sf = float_of_digits and linha = row_a_first
      and xs = "[1, 2, 0, 0, 0, 0, 0, 0, 0, 0, 0, 12]",
      THEN conjunct2, THEN conjunct1, rule_format, OF f, THEN conjunct1]
  have 8: "amount_of float_of_digits row_a_first ''mar'' = 0"
    using monthly_series [where sf = float_of_digits and linha = row_a_first and key = "''mar''",
        THEN conjunct2, THEN conjunct2, THEN conjunct1]
    by (simp add: months_fields)
  have 9: "dashboard_rows float_of_digits [row_a_text] [] [] [] = dashboard_default"
    using monthly_series [where sf = float_of_digits and linha = row_a_text
        and rn = "[row_a_text]" and re = "[]" and dsp = "[]" and bal = "[]"
        and mes = "''jan''" and s = "''abc''",
        THEN conjunct2, THEN conjunct2, THEN conjunct2, THEN conjunct1]
    by (simp add: months_fields)
  have 10: "find totais_row [desp_luz_text, desp_totais_text] = Some desp_totais_text"
    by (simp add: months_fields)
  have 11: "dashboard_rows float_of_digits [] [] [desp_luz_text, desp_totais_text] [] =
      dashboard_default"
    using monthly_series [where sf = float_of_digits and linha = desp_totais_text
        and rn = "[]" and re = "[]" and dsp = "[desp_luz_text, desp_totais_text]" and bal = "[]"
        and mes = "''fev''" and s = "''abc''",
        THEN conjunct2, THEN conjunct2, THEN conjunct2, THEN conjunct2, THEN conjunct1]
    by (simp add: months_fields)
  have 12: "fracoes_loop float_of_digits [] [row_totais_text, row_a_last] =
     fracoes_loop float_of_digits [] [row_a_last]"
    using monthly_series [where sf = float_of_digits and linha = row_totais_text
        and f = "''Totais''" and d = "[]" and rest = "[row_a_last]",
        THEN conjunct2, THEN conjunct2, THEN conjunct2, THEN conjunct2, THEN conjunct2, THEN conjunct1]
    by (simp only: months_fields simp_thms)
  have 13: "despesas_loop float_of_digits [desp_luz_text, desp_totais] =
     despesas_loop float_of_digits [desp_totais]"
    using monthly_series [where sf = float_of_digits and linha = desp_luz_text
        and f = "''Luz''" and rest = "[desp_totais]",
        THEN conjunct2, THEN conjunct2, THEN conjunct2, THEN conjunct2, THEN conjunct2, THEN conjunct2, THEN conjunct1]
    by (simp only: months_fields simp_thms)
  have 14: "despesas_loop float_of_digits [desp_totais, desp_totais_text] =
     floats_of float_of_digits desp_totais meses"
    using monthly_series [where sf = float_of_digits and linha = desp_totais
        and rest = "[desp_totais_text]",
        THEN conjunct2, THEN conjunct2, THEN conjunct2, THEN conjunct2, THEN conjunct2, THEN conjunct2, THEN conjunct2]
    by (simp only: months_fields simp_thms)
  show ?thesis
    by (intro conjI; (rule h 1 2 3 4 5 6 7 8 9 10 11 12 13 14 f months_fields))
qed

end
